theory Spec2Isabelle
  imports Main
begin

section \<open>Values, heap and shared per-operation state\<close>

text \<open>
  The engine works on untyped JavaScript values. Objects have identity, so a value of
  object kind is a reference into a heap; primitives are carried by value. Numbers are
  modelled as integers (the engine never computes with them; it only compares them and
  uses them as indices). Two kinds of function value occur: a declared function with an
  identity and a \<open>name\<close> (type constructors, anonymous functions with the empty name) and
  the arrow function \<open>() => referenceMap.get(referenceKey)\<close> that the reference
  handler returns for a key, whose \<open>name\<close> is empty.
\<close>

type_synonym addr = nat

datatype jsval =
    JsUndefined
  | JsNull
  | JsBool bool
  | JsNum int
  | JsStr string
  | JsRef addr
  | JsFunc nat string
  | JsResolver addr

datatype hobj =
    ArrayObj "jsval list"
  | SetObj "jsval list"
  | RecordObj "(string \<times> jsval) list"

text \<open>
  The heap is a list of objects; an address is an index, and \<open>new\<close> appends, so a new
  object never aliases an existing one.
\<close>

type_synonym heap = "hobj list"

definition heapGet :: "heap \<Rightarrow> addr \<Rightarrow> hobj option" where
  "heapGet h a = (if a < length h then Some (h ! a) else None)"

definition heapNew :: "heap \<Rightarrow> hobj \<Rightarrow> addr \<times> heap" where
  "heapNew h obj = (length h, h @ [obj])"

text \<open>lodash \<open>isNil\<close>, \<open>isUndefined\<close>, \<open>isNull\<close>, \<open>isFunction\<close>.\<close>

fun isUndefined :: "jsval \<Rightarrow> bool" where
  "isUndefined JsUndefined = True"
| "isUndefined _ = False"

fun isNull :: "jsval \<Rightarrow> bool" where
  "isNull JsNull = True"
| "isNull _ = False"

definition isNil :: "jsval \<Rightarrow> bool" where
  "isNil x = (isUndefined x \<or> isNull x)"

fun isFunction :: "jsval \<Rightarrow> bool" where
  "isFunction (JsFunc _ _) = True"
| "isFunction (JsResolver _) = True"
| "isFunction _ = False"

text \<open>The \<open>name\<close> property of a function value.\<close>

fun functionName :: "jsval \<Rightarrow> string" where
  "functionName (JsFunc _ n) = n"
| "functionName _ = []"

text \<open>lodash \<open>isSet\<close> and \<open>isArray\<close> look at the kind of the object referred to.\<close>

definition isSet :: "heap \<Rightarrow> jsval \<Rightarrow> bool" where
  "isSet h x = (case x of
       JsRef a \<Rightarrow> (case heapGet h a of Some (SetObj _) \<Rightarrow> True | _ \<Rightarrow> False)
     | _ \<Rightarrow> False)"

definition isArray :: "heap \<Rightarrow> jsval \<Rightarrow> bool" where
  "isArray h x = (case x of
       JsRef a \<Rightarrow> (case heapGet h a of Some (ArrayObj _) \<Rightarrow> True | _ \<Rightarrow> False)
     | _ \<Rightarrow> False)"

text \<open>
  A reference key is the identity of the object being visited, that is its address; as a
  value it is \<open>JsRef key\<close>. A reference callback is a closure \<open>() => void\<close>; the ones the
  engine queues read the reference map and assign into an object of the heap, so a
  callback is a heap transformer that may consult the reference map.
\<close>

type_synonym referenceKey = addr

type_synonym referenceCallback = "(referenceKey \<rightharpoonup> jsval) \<Rightarrow> heap \<Rightarrow> heap"

text \<open>
  Every \<open>throw new Error(...)\<close> of the source is one constructor, carrying what its
  message is built from:
  \<^item> \<open>CannotDefineGenericArguments p\<close>: "p: cannot define generic arguments. This is
    usually caused by invalid configuration.";
  \<^item> \<open>CannotDefineGenericArgument p i\<close>: "p: cannot define generic argument for index
    i. This is usually caused by invalid configuration.";
  \<^item> \<open>CannotDefineDiscriminant p\<close>: "p: cannot define discriminant of polymorphic
    type. This is usually caused by invalid configuration.";
  \<^item> \<open>CannotResolveTypeMetadata t\<close>: "Cannot resolve type metadata for provided type
    argument: t! Looks like your configuration is invalid!";
  \<^item> \<open>TypeError\<close>: the engine's own error on reading a property of \<open>undefined\<close> or
    \<open>null\<close>, or on calling a value that is not a function.
\<close>

datatype error =
    CannotDefineGenericArguments string
  | CannotDefineGenericArgument string int
  | CannotDefineDiscriminant string
  | CannotResolveTypeMetadata jsval
  | TypeError

text \<open>
  The state shared by all serializer contexts of one operation: the heap, the reference
  map and the reference callback map (both \<open>WeakMap\<close>s, shared by reference between a
  context and its children), and what the log has received at error level.
\<close>

record state =
  heap :: heap
  referenceMap :: "referenceKey \<rightharpoonup> jsval"
  referenceCallbackMap :: "referenceKey \<rightharpoonup> referenceCallback list"
  logged :: "(string \<times> jsval) list"

text \<open>\<open>WeakMap.get\<close>: a key without entry reads as \<open>undefined\<close>.\<close>

definition mapGet :: "(referenceKey \<rightharpoonup> jsval) \<Rightarrow> referenceKey \<Rightarrow> jsval" where
  "mapGet m k = (case m k of None \<Rightarrow> JsUndefined | Some v \<Rightarrow> v)"

text \<open>
  A reference value initializer is a closure \<open>() => value\<close>: it may re-enter the handler,
  allocate, log and throw, so it maps a state to an error or to its value and the state
  it leaves.
\<close>

type_synonym referenceValueInitializer = "state \<Rightarrow> error + jsval \<times> state"

section \<open>Reference callbacks (SerializerContext)\<close>

definition pushReferenceCallback :: "referenceKey \<Rightarrow> referenceCallback \<Rightarrow> state \<Rightarrow> state" where
  "pushReferenceCallback referenceKey referenceCallback st =
     (case referenceCallbackMap st referenceKey of
        None \<Rightarrow> st\<lparr>referenceCallbackMap := (referenceCallbackMap st)(referenceKey \<mapsto> [referenceCallback])\<rparr>
      | Some referenceCallbacks \<Rightarrow>
          st\<lparr>referenceCallbackMap :=
               (referenceCallbackMap st)(referenceKey \<mapsto> referenceCallbacks @ [referenceCallback])\<rparr>)"

text \<open>The \<open>for ... of\<close> loop over the queued callbacks, in queue order.\<close>

fun runReferenceCallbacks :: "referenceCallback list \<Rightarrow> state \<Rightarrow> state" where
  "runReferenceCallbacks [] st = st"
| "runReferenceCallbacks (referenceCallback # rest) st =
     runReferenceCallbacks rest (st\<lparr>heap := referenceCallback (referenceMap st) (heap st)\<rparr>)"

definition resolveReferenceCallbacks :: "referenceKey \<Rightarrow> state \<Rightarrow> state" where
  "resolveReferenceCallbacks referenceKey st =
     (case referenceCallbackMap st referenceKey of
        None \<Rightarrow> st
      | Some referenceCallbacks \<Rightarrow> runReferenceCallbacks referenceCallbacks st)"

section \<open>DirectReferenceHandler\<close>

text \<open>
  \<open>define\<close> and \<open>restore\<close> receive the serializer context only to reach the shared
  reference map and callback queue, which live in the state here.
\<close>

definition DirectReferenceHandler_define :: "referenceKey \<Rightarrow> referenceValueInitializer \<Rightarrow> state \<Rightarrow> error + jsval \<times> state" where
  "DirectReferenceHandler_define referenceKey referenceValueInitializer st =
     (let referenceValue = mapGet (referenceMap st) referenceKey in
      if isNil referenceValue then
        (case referenceValueInitializer
                (st\<lparr>referenceMap := (referenceMap st)(referenceKey \<mapsto> JsRef referenceKey)\<rparr>) of
           Inl e \<Rightarrow> Inl e
         | Inr (v, st') \<Rightarrow>
             Inr (v, resolveReferenceCallbacks referenceKey
                       (st'\<lparr>referenceMap := (referenceMap st')(referenceKey \<mapsto> v)\<rparr>)))
      else if referenceValue = JsRef referenceKey then Inr (JsResolver referenceKey, st)
      else Inr (referenceValue, st))"

definition DirectReferenceHandler_restore :: "referenceKey \<Rightarrow> referenceValueInitializer \<Rightarrow> state \<Rightarrow> error + jsval \<times> state" where
  "DirectReferenceHandler_restore referenceKey referenceValueInitializer st =
     (let referenceValue = mapGet (referenceMap st) referenceKey in
      if isNil referenceValue then
        (case referenceValueInitializer
                (st\<lparr>referenceMap := (referenceMap st)(referenceKey \<mapsto> JsRef referenceKey)\<rparr>) of
           Inl e \<Rightarrow> Inl e
         | Inr (v, st') \<Rightarrow>
             Inr (v, resolveReferenceCallbacks referenceKey
                       (st'\<lparr>referenceMap := (referenceMap st')(referenceKey \<mapsto> v)\<rparr>)))
      else if referenceValue = JsRef referenceKey then Inr (JsResolver referenceKey, st)
      else Inr (referenceValue, st))"

text \<open>
  Calling the resolver \<open>() => referenceMap.get(referenceKey)\<close> later reads the entry the
  shared map holds at that moment.
\<close>

fun callResolver :: "jsval \<Rightarrow> state \<Rightarrow> jsval" where
  "callResolver (JsResolver referenceKey) st = mapGet (referenceMap st) referenceKey"
| "callResolver _ st = JsUndefined"

section \<open>Type metadata, property metadata and serializer context options\<close>

text \<open>
  A generic argument is a type argument, or the pair of a type argument and its own
  generic arguments. A type argument is a value: a type function, an alias (a string) or
  a lazy resolver.
\<close>

datatype genericArgument =
    TypeArgument jsval
  | TypeArgumentWith jsval "genericArgument list"

datatype referenceHandler = DirectReferenceHandler

text \<open>
  The fields of \<open>TypeMetadata\<close> and \<open>PropertyMetadata\<close> that the serializer context
  reads. A per-property override that is not configured is \<open>None\<close>. The discriminant map
  is a \<open>Map\<close> from type function to discriminant, kept in insertion order.
\<close>

record typeMetadata =
  tm_typeFn :: jsval
  tm_discriminator :: string
  tm_discriminant :: jsval
  tm_discriminantMap :: "(jsval \<times> jsval) list"
  tm_genericArguments :: "genericArgument list option"
  tm_preserveNull :: bool
  tm_useDefaultValue :: bool
  tm_serializedDefaultValue :: jsval
  tm_deserializedDefaultValue :: jsval
  tm_referenceHandler :: referenceHandler
  tm_logErrorEnabled :: bool

record propertyMetadata =
  pm_genericArguments :: "genericArgument list option"
  pm_preserveNull :: "bool option"
  pm_useDefaultValue :: "bool option"
  pm_serializedDefaultValue :: jsval
  pm_deserializedDefaultValue :: jsval
  pm_referenceHandler :: "referenceHandler option"

datatype pathKey = KeyString string | KeyNumber int

text \<open>
  The two reference value setters the set serializer builds: \<open>v => array[i] = v\<close> (over
  the loop variable of the serializing call that owns the array) and \<open>v => set.add(v)\<close>.
  They are carried by the context; nothing in the modelled code invokes them.
\<close>

datatype referenceValueSetter = ArrayIndexSetter addr | SetAddSetter addr

record serializerContextOptions =
  sco_jsonPathKey :: pathKey
  sco_typeMetadata :: typeMetadata
  sco_propertyMetadata :: "propertyMetadata option"
  sco_genericArguments :: "genericArgument list option"
  sco_referenceValueSetter :: "referenceValueSetter option"

text \<open>
  A serializer context is its options and its parent link; the root payload and the two
  shared maps are in the state.
\<close>

datatype serializerContext =
  SerializerContext (serializerContextOptions: serializerContextOptions)
                    (parentSerializerContext: "serializerContext option")

section \<open>SerializerContext: getters\<close>

definition jsonPathKey :: "serializerContext \<Rightarrow> pathKey" where
  "jsonPathKey ctx = sco_jsonPathKey (serializerContextOptions ctx)"

definition typeMetadata :: "serializerContext \<Rightarrow> typeMetadata" where
  "typeMetadata ctx = sco_typeMetadata (serializerContextOptions ctx)"

definition propertyMetadata :: "serializerContext \<Rightarrow> propertyMetadata option" where
  "propertyMetadata ctx = sco_propertyMetadata (serializerContextOptions ctx)"

text \<open>The nullish coalescing operator \<open>a ?? b\<close> on values.\<close>

definition nullish :: "jsval \<Rightarrow> jsval \<Rightarrow> jsval" where
  "nullish a b = (if isNil a then b else a)"

definition preserveNull :: "serializerContext \<Rightarrow> bool" where
  "preserveNull ctx =
     (case propertyMetadata ctx of
        None \<Rightarrow> tm_preserveNull (typeMetadata ctx)
      | Some pm \<Rightarrow> (case pm_preserveNull pm of
                     None \<Rightarrow> tm_preserveNull (typeMetadata ctx)
                   | Some b \<Rightarrow> b))"

definition useDefaultValue :: "serializerContext \<Rightarrow> bool" where
  "useDefaultValue ctx =
     (case propertyMetadata ctx of
        None \<Rightarrow> tm_useDefaultValue (typeMetadata ctx)
      | Some pm \<Rightarrow> (case pm_useDefaultValue pm of
                     None \<Rightarrow> tm_useDefaultValue (typeMetadata ctx)
                   | Some b \<Rightarrow> b))"

definition serializedDefaultValue :: "serializerContext \<Rightarrow> jsval" where
  "serializedDefaultValue ctx =
     (if useDefaultValue ctx then
        (case propertyMetadata ctx of
           None \<Rightarrow> tm_serializedDefaultValue (typeMetadata ctx)
         | Some pm \<Rightarrow> nullish (pm_serializedDefaultValue pm) (tm_serializedDefaultValue (typeMetadata ctx)))
      else JsUndefined)"

definition serializedNullValue :: "serializerContext \<Rightarrow> jsval" where
  "serializedNullValue ctx = (if preserveNull ctx then JsNull else serializedDefaultValue ctx)"

definition deserializedDefaultValue :: "serializerContext \<Rightarrow> jsval" where
  "deserializedDefaultValue ctx =
     (if useDefaultValue ctx then
        (case propertyMetadata ctx of
           None \<Rightarrow> tm_deserializedDefaultValue (typeMetadata ctx)
         | Some pm \<Rightarrow> nullish (pm_deserializedDefaultValue pm) (tm_deserializedDefaultValue (typeMetadata ctx)))
      else JsUndefined)"

definition deserializedNullValue :: "serializerContext \<Rightarrow> jsval" where
  "deserializedNullValue ctx = (if preserveNull ctx then JsNull else deserializedDefaultValue ctx)"

text \<open>Decimal rendering of a number inside a template literal.\<close>

definition digitChar :: "nat \<Rightarrow> char" where
  "digitChar d = ''0123456789'' ! d"

fun showNat :: "nat \<Rightarrow> string" where
  "showNat n = (if n < 10 then [digitChar n] else showNat (n div 10) @ [digitChar (n mod 10)])"

declare showNat.simps [simp del]

definition showInt :: "int \<Rightarrow> string" where
  "showInt i = (if i < 0 then CHR ''-'' # showNat (nat (- i)) else showNat (nat i))"

fun pathKeyText :: "pathKey \<Rightarrow> string" where
  "pathKeyText (KeyString s) = s"
| "pathKeyText (KeyNumber n) = showInt n"

fun jsonPath :: "serializerContext \<Rightarrow> string" where
  "jsonPath (SerializerContext opts None) = pathKeyText (sco_jsonPathKey opts)"
| "jsonPath (SerializerContext opts (Some parent)) =
     (case sco_jsonPathKey opts of
        KeyNumber n \<Rightarrow> jsonPath parent @ ''['' @ showInt n @ '']''
      | KeyString s \<Rightarrow> jsonPath parent @ [CHR ''['', CHR 0x27] @ s @ [CHR 0x27, CHR '']''])"

definition discriminantMap :: "serializerContext \<Rightarrow> (jsval \<times> jsval) list" where
  "discriminantMap ctx = tm_discriminantMap (typeMetadata ctx)"

definition genericArguments :: "serializerContext \<Rightarrow> genericArgument list option" where
  "genericArguments ctx =
     (case sco_genericArguments (serializerContextOptions ctx) of
        Some gs \<Rightarrow> Some gs
      | None \<Rightarrow>
          (case propertyMetadata ctx of
             None \<Rightarrow> tm_genericArguments (typeMetadata ctx)
           | Some pm \<Rightarrow> (case pm_genericArguments pm of
                          Some gs \<Rightarrow> Some gs
                        | None \<Rightarrow> tm_genericArguments (typeMetadata ctx))))"

definition logErrorEnabled :: "serializerContext \<Rightarrow> bool" where
  "logErrorEnabled ctx = tm_logErrorEnabled (typeMetadata ctx)"

definition referenceHandler :: "serializerContext \<Rightarrow> referenceHandler" where
  "referenceHandler ctx =
     (case propertyMetadata ctx of
        None \<Rightarrow> tm_referenceHandler (typeMetadata ctx)
      | Some pm \<Rightarrow> (case pm_referenceHandler pm of
                     None \<Rightarrow> tm_referenceHandler (typeMetadata ctx)
                   | Some rh \<Rightarrow> rh))"

definition defineReference ::
  "serializerContext \<Rightarrow> referenceKey \<Rightarrow> referenceValueInitializer \<Rightarrow> state \<Rightarrow> error + jsval \<times> state" where
  "defineReference ctx referenceKey referenceValueGetter st =
     (case referenceHandler ctx of
        DirectReferenceHandler \<Rightarrow> DirectReferenceHandler_define referenceKey referenceValueGetter st)"

definition restoreReference ::
  "serializerContext \<Rightarrow> referenceKey \<Rightarrow> referenceValueInitializer \<Rightarrow> state \<Rightarrow> error + jsval \<times> state" where
  "restoreReference ctx referenceKey referenceValueGetter st =
     (case referenceHandler ctx of
        DirectReferenceHandler \<Rightarrow> DirectReferenceHandler_restore referenceKey referenceValueGetter st)"

section \<open>Resolving type metadata\<close>

text \<open>
  Every context carries the type metadata resolver of its type metadata; within one
  registry this is one function, \<open>TypeArtisan.resolveTypeMetadata\<close>, so the model passes
  it to the functions that resolve.
\<close>

type_synonym typeMetadataResolver = "jsval \<Rightarrow> error + typeMetadata"

definition isCtorFunction :: "jsval \<Rightarrow> bool" where
  "isCtorFunction x = (isFunction x \<and> functionName x \<noteq> [])"

text \<open>
  \<open>TypeArtisan.resolveTypeMetadata\<close>. An alias is looked up in the type constructor map,
  a constructor function is taken as it is, and any other type argument is a lazy
  resolver and is called (calling a value that is not a function throws). The parts of
  the registry that are not among the sources are parameters: the alias map
  \<open>typeCtorMap\<close>, the result \<open>callResolverFn\<close> of calling a lazy resolver, and
  \<open>extractTypeMetadata\<close>, which always yields metadata for a type constructor (declaring
  it on first use). \<open>Fn.isCtor\<close> is read as \<open>isCtorFunction\<close>.
\<close>

definition resolveTypeMetadata ::
  "(string \<rightharpoonup> jsval) \<Rightarrow> (jsval \<Rightarrow> jsval) \<Rightarrow> (jsval \<Rightarrow> typeMetadata) \<Rightarrow> typeMetadataResolver" where
  "resolveTypeMetadata typeCtorMap callResolverFn extractTypeMetadata typeArgument =
     (case (case typeArgument of
              JsStr alias \<Rightarrow> Inr (case typeCtorMap alias of None \<Rightarrow> JsUndefined | Some c \<Rightarrow> c)
            | _ \<Rightarrow> if isCtorFunction typeArgument then Inr typeArgument
                   else if isFunction typeArgument then Inr (callResolverFn typeArgument)
                   else Inl TypeError) of
        Inl e \<Rightarrow> Inl e
      | Inr typeCtor \<Rightarrow>
          if isNil typeCtor then Inl (CannotResolveTypeMetadata typeArgument)
          else Inr (extractTypeMetadata typeCtor))"

text \<open>
  Modelled from the spec: \<open>Metadata.defineTypeMetadata\<close>, a method of the serializer
  context's base class, which is not among the sources. Spec 4.1: resolving a type
  reference, alias or lazy resolver returns its Type Metadata and fails with a
  configuration error if an alias is unknown or a resolver yields nothing. It applies the
  context's type metadata resolver to the type argument.
\<close>

definition defineTypeMetadata :: "typeMetadataResolver \<Rightarrow> jsval \<Rightarrow> error + typeMetadata" where
  "defineTypeMetadata resolver typeArgument = resolver typeArgument"

section \<open>SerializerContext: child, generic and polymorphic contexts\<close>

definition defineChildSerializerContext ::
  "serializerContext \<Rightarrow> serializerContextOptions \<Rightarrow> serializerContext" where
  "defineChildSerializerContext ctx opts = SerializerContext opts (Some ctx)"

text \<open>\<open>genericArguments[genericIndex]\<close>: an index outside the array reads as \<open>undefined\<close>.\<close>

definition arrayAt :: "'a list \<Rightarrow> int \<Rightarrow> 'a option" where
  "arrayAt xs i = (if 0 \<le> i \<and> nat i < length xs then Some (xs ! nat i) else None)"

text \<open>
  \<open>isArray(genericArgument) ? genericArgument[0] : genericArgument\<close> and
  \<open>isArray(genericArgument) ? genericArgument[1] : undefined\<close>.
\<close>

fun genericTypeArgument :: "genericArgument \<Rightarrow> jsval" where
  "genericTypeArgument (TypeArgument t) = t"
| "genericTypeArgument (TypeArgumentWith t gs) = t"

fun genericGenericArguments :: "genericArgument \<Rightarrow> genericArgument list option" where
  "genericGenericArguments (TypeArgument t) = None"
| "genericGenericArguments (TypeArgumentWith t gs) = Some gs"

text \<open>
  \<open>isNil(genericArgument)\<close> on an entry of the array: an entry that is not a pair is the
  type argument itself, which may be \<open>undefined\<close> or \<open>null\<close>; a pair is an array and is
  never nil.
\<close>

fun isNilGenericArgument :: "genericArgument \<Rightarrow> bool" where
  "isNilGenericArgument (TypeArgument t) = isNil t"
| "isNilGenericArgument (TypeArgumentWith t gs) = False"

definition defineGenericSerializerContext ::
  "typeMetadataResolver \<Rightarrow> serializerContext \<Rightarrow> int \<Rightarrow> error + serializerContext" where
  "defineGenericSerializerContext resolver ctx genericIndex =
     (case genericArguments ctx of
        None \<Rightarrow> Inl (CannotDefineGenericArguments (jsonPath ctx))
      | Some gs \<Rightarrow>
          (case arrayAt gs genericIndex of
             None \<Rightarrow> Inl (CannotDefineGenericArgument (jsonPath ctx) genericIndex)
           | Some genericArgument \<Rightarrow>
               if isNilGenericArgument genericArgument
               then Inl (CannotDefineGenericArgument (jsonPath ctx) genericIndex)
               else
                 (case defineTypeMetadata resolver (genericTypeArgument genericArgument) of
                    Inl e \<Rightarrow> Inl e
                  | Inr tm \<Rightarrow>
                      Inr (SerializerContext
                             ((serializerContextOptions ctx)
                                \<lparr>sco_typeMetadata := tm,
                                 sco_genericArguments := genericGenericArguments genericArgument,
                                 sco_propertyMetadata := None\<rparr>)
                             (parentSerializerContext ctx)))))"

text \<open>
  Reading \<open>x[name]\<close>. Own data properties of a plain record, \<open>length\<close> of an array and
  of a string and \<open>name\<close> of a function are modelled; any other property of a value that
  is not nil reads as \<open>undefined\<close> (inherited properties are not modelled). Reading a
  property of \<open>undefined\<close> or \<open>null\<close> throws.
\<close>

definition getProperty :: "heap \<Rightarrow> jsval \<Rightarrow> string \<Rightarrow> error + jsval" where
  "getProperty h x name =
     (case x of
        JsUndefined \<Rightarrow> Inl TypeError
      | JsNull \<Rightarrow> Inl TypeError
      | JsRef a \<Rightarrow>
          (case heapGet h a of
             Some (RecordObj props) \<Rightarrow>
               Inr (case map_of props name of None \<Rightarrow> JsUndefined | Some v \<Rightarrow> v)
           | Some (ArrayObj xs) \<Rightarrow>
               Inr (if name = ''length'' then JsNum (int (length xs)) else JsUndefined)
           | _ \<Rightarrow> Inr JsUndefined)
      | JsStr s \<Rightarrow> Inr (if name = ''length'' then JsNum (int (length s)) else JsUndefined)
      | JsFunc _ n \<Rightarrow> Inr (if name = ''name'' then JsStr n else JsUndefined)
      | JsResolver _ \<Rightarrow> Inr (if name = ''name'' then JsStr [] else JsUndefined)
      | _ \<Rightarrow> Inr JsUndefined)"

definition definePolymorphicSerializerContextByTypeFn ::
  "typeMetadataResolver \<Rightarrow> serializerContext \<Rightarrow> jsval \<Rightarrow> error + serializerContext" where
  "definePolymorphicSerializerContextByTypeFn resolver ctx typeFn =
     (let discriminant = (case map_of (discriminantMap ctx) typeFn of None \<Rightarrow> JsUndefined | Some d \<Rightarrow> d)
      in if isNil discriminant then Inl (CannotDefineDiscriminant (jsonPath ctx))
         else (case defineTypeMetadata resolver typeFn of
                 Inl e \<Rightarrow> Inl e
               | Inr tm \<Rightarrow>
                   Inr (SerializerContext ((serializerContextOptions ctx)\<lparr>sco_typeMetadata := tm\<rparr>)
                                          (parentSerializerContext ctx))))"

text \<open>
  The loop \<open>for (const [typeCtor, discriminant] of this.discriminantMap)\<close> over the
  entries that are left, and the \<open>throw\<close> after it.
\<close>

fun scanDiscriminantMap ::
  "typeMetadataResolver \<Rightarrow> heap \<Rightarrow> serializerContext \<Rightarrow> jsval \<Rightarrow> (jsval \<times> jsval) list
     \<Rightarrow> error + serializerContext" where
  "scanDiscriminantMap resolver h ctx record [] = Inl (CannotDefineDiscriminant (jsonPath ctx))"
| "scanDiscriminantMap resolver h ctx record ((typeCtor, discriminant) # rest) =
     (case defineTypeMetadata resolver typeCtor of
        Inl e \<Rightarrow> Inl e
      | Inr tm \<Rightarrow>
          (case getProperty h record (tm_discriminator tm) of
             Inl e \<Rightarrow> Inl e
           | Inr v \<Rightarrow>
               if v = discriminant
               then Inr (SerializerContext ((serializerContextOptions ctx)\<lparr>sco_typeMetadata := tm\<rparr>)
                                           (parentSerializerContext ctx))
               else scanDiscriminantMap resolver h ctx record rest))"

definition definePolymorphicSerializerContextByDiscriminant ::
  "typeMetadataResolver \<Rightarrow> heap \<Rightarrow> serializerContext \<Rightarrow> jsval \<Rightarrow> error + serializerContext" where
  "definePolymorphicSerializerContextByDiscriminant resolver h ctx record =
     scanDiscriminantMap resolver h ctx record (discriminantMap ctx)"

definition definePolymorphicSerializerContext ::
  "typeMetadataResolver \<Rightarrow> heap \<Rightarrow> serializerContext \<Rightarrow> jsval \<Rightarrow> error + serializerContext" where
  "definePolymorphicSerializerContext resolver h ctx x =
     (if isCtorFunction x then definePolymorphicSerializerContextByTypeFn resolver ctx x
      else definePolymorphicSerializerContextByDiscriminant resolver h ctx x)"

section \<open>SetSerializer\<close>

text \<open>
  \<open>SerializerContext.serialize\<close> and \<open>deserialize\<close> delegate to the effective serializer
  of the context. The serializers of the element types are not among the sources, so the
  set serializer takes this dispatch as a parameter. An error aborts the whole operation;
  the state it would leave behind is not kept.
\<close>

type_synonym contextSerializer = "serializerContext \<Rightarrow> jsval \<Rightarrow> state \<Rightarrow> error + jsval \<times> state"

definition setElements :: "heap \<Rightarrow> addr \<Rightarrow> jsval list" where
  "setElements h a = (case heapGet h a of Some (SetObj xs) \<Rightarrow> xs | _ \<Rightarrow> [])"

definition arrayElements :: "heap \<Rightarrow> addr \<Rightarrow> jsval list" where
  "arrayElements h a = (case heapGet h a of Some (ArrayObj xs) \<Rightarrow> xs | _ \<Rightarrow> [])"

text \<open>
  \<open>array[i] = v\<close>: inside the array it replaces the element, beyond its end it extends the
  array (the slots in between read as \<open>undefined\<close>).
\<close>

definition arrayAssign :: "heap \<Rightarrow> addr \<Rightarrow> int \<Rightarrow> jsval \<Rightarrow> heap" where
  "arrayAssign h a i v =
     (case heapGet h a of
        Some (ArrayObj xs) \<Rightarrow>
          h[a := ArrayObj (if i < 0 then xs
                           else if nat i < length xs then xs[nat i := v]
                           else xs @ replicate (nat i - length xs) JsUndefined @ [v])]
      | _ \<Rightarrow> h)"

text \<open>\<open>set.add(v)\<close>: a value the set already holds is not added again.\<close>

definition setAdd :: "heap \<Rightarrow> addr \<Rightarrow> jsval \<Rightarrow> heap" where
  "setAdd h a v =
     (case heapGet h a of
        Some (SetObj xs) \<Rightarrow> h[a := SetObj (if v \<in> set xs then xs else xs @ [v])]
      | _ \<Rightarrow> h)"

text \<open>
  The body of \<open>for (const v of set)\<close>, over the elements that are left; \<open>i\<close> is the loop
  variable before its increment. The elements are those the set holds when the loop
  starts: element serializers are taken not to alter the collection being traversed.
\<close>

fun serializeSetElements ::
  "contextSerializer \<Rightarrow> serializerContext \<Rightarrow> addr \<Rightarrow> int \<Rightarrow> jsval list \<Rightarrow> state \<Rightarrow> error + state" where
  "serializeSetElements serialize genericSerializerContext array i [] st = Inr st"
| "serializeSetElements serialize genericSerializerContext array i (v # vs) st =
     (let i' = i + 1;
          valueSerializerContext =
            defineChildSerializerContext genericSerializerContext
              \<lparr>sco_jsonPathKey = KeyNumber i',
               sco_typeMetadata = typeMetadata genericSerializerContext,
               sco_propertyMetadata = None,
               sco_genericArguments = None,
               sco_referenceValueSetter = Some (ArrayIndexSetter array)\<rparr>
      in case serialize valueSerializerContext v st of
           Inl e \<Rightarrow> Inl e
         | Inr (w, st') \<Rightarrow>
             serializeSetElements serialize genericSerializerContext array i' vs
               (st'\<lparr>heap := arrayAssign (heap st') array i' w\<rparr>))"

definition SetSerializer_serialize ::
  "typeMetadataResolver \<Rightarrow> contextSerializer \<Rightarrow> jsval \<Rightarrow> serializerContext \<Rightarrow> state
     \<Rightarrow> error + jsval \<times> state" where
  "SetSerializer_serialize resolver serialize x serializerContext st =
     (if isUndefined x then Inr (serializedDefaultValue serializerContext, st)
      else if isNull x then Inr (serializedNullValue serializerContext, st)
      else if isSet (heap st) x then
        (case x of
           JsRef a \<Rightarrow>
             defineReference serializerContext a
               (\<lambda>st1.
                  let (array, h) = heapNew (heap st1) (ArrayObj []);
                      st2 = st1\<lparr>heap := h\<rparr>
                  in case defineGenericSerializerContext resolver serializerContext 0 of
                       Inl e \<Rightarrow> Inl e
                     | Inr genericSerializerContext \<Rightarrow>
                         (case serializeSetElements serialize genericSerializerContext array (- 1)
                                 (setElements (heap st2) a) st2 of
                            Inl e \<Rightarrow> Inl e
                          | Inr st3 \<Rightarrow> Inr (JsRef array, st3)))
               st
         | _ \<Rightarrow> Inr (JsUndefined, st))
      else Inr (JsUndefined,
                if logErrorEnabled serializerContext
                then st\<lparr>logged := logged st @
                        [(jsonPath serializerContext @ '': cannot serialize value as set.'', x)]\<rparr>
                else st))"

text \<open>The body of \<open>for (let i = 0; i < array.length; i++)\<close>, over the elements that are left.\<close>

fun deserializeArrayElements ::
  "contextSerializer \<Rightarrow> serializerContext \<Rightarrow> addr \<Rightarrow> int \<Rightarrow> jsval list \<Rightarrow> state \<Rightarrow> error + state" where
  "deserializeArrayElements deserialize genericSerializerContext set' i [] st = Inr st"
| "deserializeArrayElements deserialize genericSerializerContext set' i (w # ws) st =
     (let valueSerializerContext =
            defineChildSerializerContext genericSerializerContext
              \<lparr>sco_jsonPathKey = KeyNumber i,
               sco_typeMetadata = typeMetadata genericSerializerContext,
               sco_propertyMetadata = None,
               sco_genericArguments = None,
               sco_referenceValueSetter = Some (SetAddSetter set')\<rparr>
      in case deserialize valueSerializerContext w st of
           Inl e \<Rightarrow> Inl e
         | Inr (v, st') \<Rightarrow>
             deserializeArrayElements deserialize genericSerializerContext set' (i + 1) ws
               (st'\<lparr>heap := setAdd (heap st') set' v\<rparr>))"

definition SetSerializer_deserialize ::
  "typeMetadataResolver \<Rightarrow> contextSerializer \<Rightarrow> jsval \<Rightarrow> serializerContext \<Rightarrow> state
     \<Rightarrow> error + jsval \<times> state" where
  "SetSerializer_deserialize resolver deserialize x serializerContext st =
     (if isUndefined x then Inr (deserializedDefaultValue serializerContext, st)
      else if isNull x then Inr (deserializedNullValue serializerContext, st)
      else if isArray (heap st) x then
        (case x of
           JsRef a \<Rightarrow>
             restoreReference serializerContext a
               (\<lambda>st1.
                  let (set', h) = heapNew (heap st1) (SetObj []);
                      st2 = st1\<lparr>heap := h\<rparr>
                  in case defineGenericSerializerContext resolver serializerContext 0 of
                       Inl e \<Rightarrow> Inl e
                     | Inr genericSerializerContext \<Rightarrow>
                         (case deserializeArrayElements deserialize genericSerializerContext set' 0
                                 (arrayElements (heap st2) a) st2 of
                            Inl e \<Rightarrow> Inl e
                          | Inr st3 \<Rightarrow> Inr (JsRef set', st3)))
               st
         | _ \<Rightarrow> Inr (JsUndefined, st))
      else Inr (JsUndefined,
                if logErrorEnabled serializerContext
                then st\<lparr>logged := logged st @
                        [(jsonPath serializerContext @ '': cannot deserialize value as set.'', x)]\<rparr>
                else st))"

section \<open>Notions used in the statements\<close>

text \<open>The callbacks queued for a key, in queue order (none when the key has no queue).\<close>

definition queuedCallbacks :: "referenceKey \<Rightarrow> state \<Rightarrow> referenceCallback list" where
  "queuedCallbacks referenceKey st =
     (case referenceCallbackMap st referenceKey of None \<Rightarrow> [] | Some referenceCallbacks \<Rightarrow> referenceCallbacks)"

text \<open>The value a plain record holds for a field name (\<open>undefined\<close> when it has none).\<close>

definition recordField :: "(string \<times> jsval) list \<Rightarrow> string \<Rightarrow> jsval" where
  "recordField props name = (case map_of props name of None \<Rightarrow> JsUndefined | Some v \<Rightarrow> v)"

text \<open>
  Handler activity on the shared reference map, as it may run between two visits of a
  key: a step that leaves the reference map as it is (it may allocate, assign into
  objects, queue callbacks, log), a visit of any key by \<open>define\<close> or \<open>restore\<close> whose
  initializer is handler activity again, and one activity followed by another that may
  use the first one's value.
\<close>

inductive handlerActivity :: "referenceValueInitializer \<Rightarrow> bool" where
  step: "(\<And>st v st'. f st = Inr (v, st') \<Longrightarrow> referenceMap st' = referenceMap st) \<Longrightarrow>
         handlerActivity f"
| visit_define: "handlerActivity init \<Longrightarrow> handlerActivity (DirectReferenceHandler_define k init)"
| visit_restore: "handlerActivity init \<Longrightarrow> handlerActivity (DirectReferenceHandler_restore k init)"
| sequence: "handlerActivity f \<Longrightarrow> (\<And>v. handlerActivity (g v)) \<Longrightarrow>
             handlerActivity (\<lambda>st. case f st of Inl e \<Rightarrow> Inl e | Inr (v, st') \<Rightarrow> g v st')"

section \<open>Example configuration\<close>

text \<open>
  A small registry for the concrete instances below: type functions \<open>Root\<close>, \<open>A\<close>, \<open>B\<close>,
  \<open>Number\<close> and \<open>Set\<close>, no alias, lazy resolvers that yield nothing, and for every type
  function the metadata the base options would declare (discriminator field \<open>tag\<close>,
  null preserved, no default substitution, error logging enabled).
\<close>

definition rootFn :: jsval where "rootFn = JsFunc 0 ''Root''"
definition typeFnA :: jsval where "typeFnA = JsFunc 1 ''A''"
definition typeFnB :: jsval where "typeFnB = JsFunc 2 ''B''"
definition numberFn :: jsval where "numberFn = JsFunc 3 ''Number''"
definition setFn :: jsval where "setFn = JsFunc 4 ''Set''"

definition exampleTypeMetadata :: "jsval \<Rightarrow> typeMetadata" where
  "exampleTypeMetadata typeFn =
     \<lparr>tm_typeFn = typeFn,
      tm_discriminator = ''tag'',
      tm_discriminant = JsStr (functionName typeFn),
      tm_discriminantMap = [],
      tm_genericArguments = None,
      tm_preserveNull = True,
      tm_useDefaultValue = False,
      tm_serializedDefaultValue = JsUndefined,
      tm_deserializedDefaultValue = JsUndefined,
      tm_referenceHandler = DirectReferenceHandler,
      tm_logErrorEnabled = True\<rparr>"

definition exampleResolver :: typeMetadataResolver where
  "exampleResolver = resolveTypeMetadata Map.empty (\<lambda>f. JsUndefined) exampleTypeMetadata"

definition rootContext :: "typeMetadata \<Rightarrow> serializerContext" where
  "rootContext tm =
     SerializerContext
       \<lparr>sco_jsonPathKey = KeyString ''$'',
        sco_typeMetadata = tm,
        sco_propertyMetadata = None,
        sco_genericArguments = None,
        sco_referenceValueSetter = None\<rparr>
       None"

text \<open>A polymorphic root with members \<open>A\<close> (discriminant "A") and \<open>B\<close> (discriminant "B").\<close>

definition polymorphicContext :: serializerContext where
  "polymorphicContext =
     rootContext ((exampleTypeMetadata rootFn)
       \<lparr>tm_discriminantMap := [(typeFnA, JsStr ''A''), (typeFnB, JsStr ''B'')]\<rparr>)"

text \<open>A context of type \<open>Set\<close> with the generic argument \<open>Number\<close>.\<close>

definition numberSetContext :: serializerContext where
  "numberSetContext =
     rootContext ((exampleTypeMetadata setFn)\<lparr>tm_genericArguments := Some [TypeArgument numberFn]\<rparr>)"

text \<open>
  A leaf element serializer for the instances: it passes a value through and leaves the
  state alone, as a number serializer does on a number.
\<close>

definition passThrough :: contextSerializer where
  "passThrough ctx x st = Inr (x, st)"

text \<open>An initializer that returns a given value and does nothing else.\<close>

definition constantInitializer :: "jsval \<Rightarrow> referenceValueInitializer" where
  "constantInitializer v st = Inr (v, st)"

text \<open>An initializer that throws.\<close>

definition throwingInitializer :: referenceValueInitializer where
  "throwingInitializer st = Inl TypeError"

text \<open>A state with objects and fresh (empty) reference maps.\<close>

definition freshState :: "heap \<Rightarrow> state" where
  "freshState h = \<lparr>heap = h, referenceMap = Map.empty, referenceCallbackMap = Map.empty, logged = []\<rparr>"

text \<open>
  A callback as the engine queues them: it reads the entry of a key and writes it into
  the array at an address. An initializer that records its own invocation in the log,
  queues that callback for the key 0 and returns 7.
\<close>

definition writeEntryToArray :: "referenceKey \<Rightarrow> addr \<Rightarrow> referenceCallback" where
  "writeEntryToArray k a m h = h[a := ArrayObj [mapGet m k]]"

definition loggingInitializer :: referenceValueInitializer where
  "loggingInitializer st =
     Inr (JsNum 7, pushReferenceCallback 0 (writeEntryToArray 0 1)
                     (st\<lparr>logged := logged st @ [(''initializer invoked'', JsUndefined)]\<rparr>))"

text \<open>Two raw records: \<open>{tag: "B", title: "b"}\<close> and \<open>{tag: "C"}\<close>.\<close>

definition exampleRecords :: heap where
  "exampleRecords =
     [RecordObj [(''tag'', JsStr ''B''), (''title'', JsStr ''b'')],
      RecordObj [(''tag'', JsStr ''C'')]]"

text \<open>A type function that is not a member of the polymorphic root.\<close>

definition typeFnC :: jsval where "typeFnC = JsFunc 5 ''C''"

text \<open>
  A context of type \<open>Set\<close> whose generic arguments are the pair \<open>[Set, [Number]]\<close> and
  the alias "Unknown", which no type is registered under.
\<close>

definition nestedSetContext :: serializerContext where
  "nestedSetContext =
     rootContext ((exampleTypeMetadata setFn)
       \<lparr>tm_genericArguments :=
          Some [TypeArgumentWith setFn [TypeArgument numberFn], TypeArgument (JsStr ''Unknown'')]\<rparr>)"

text \<open>A context of type \<open>Set\<close> whose only generic argument is \<open>null\<close>.\<close>

definition nilArgumentContext :: serializerContext where
  "nilArgumentContext =
     rootContext ((exampleTypeMetadata setFn)\<lparr>tm_genericArguments := Some [TypeArgument JsNull]\<rparr>)"

text \<open>A context of type \<open>Set\<close> whose generic argument is the pair \<open>[Set, [Number]]\<close>.\<close>

definition setOfNumberSetsContext :: serializerContext where
  "setOfNumberSetsContext =
     rootContext ((exampleTypeMetadata setFn)
       \<lparr>tm_genericArguments := Some [TypeArgumentWith setFn [TypeArgument numberFn]]\<rparr>)"

text \<open>
  The dispatch of the example registry, two levels deep: a context whose type is \<open>Set\<close>
  delegates to the set serializer, whose own elements are passed through; any other
  context passes the value through.
\<close>

definition exampleSerialize :: contextSerializer where
  "exampleSerialize ctx x st =
     (if tm_typeFn (typeMetadata ctx) = setFn
      then SetSerializer_serialize exampleResolver passThrough x ctx st
      else passThrough ctx x st)"

definition exampleDeserialize :: contextSerializer where
  "exampleDeserialize ctx x st =
     (if tm_typeFn (typeMetadata ctx) = setFn
      then SetSerializer_deserialize exampleResolver passThrough x ctx st
      else passThrough ctx x st)"

text \<open>An anonymous function.\<close>

definition anonymousFn :: jsval where "anonymousFn = JsFunc 6 []"

text \<open>
  A context with property metadata: the property switches null preservation off and
  default substitution on, and configures the serialized default "none" but no
  deserialized default; the type's defaults are 0.
\<close>

definition defaultingProperty :: propertyMetadata where
  "defaultingProperty =
     \<lparr>pm_genericArguments = None,
      pm_preserveNull = Some False,
      pm_useDefaultValue = Some True,
      pm_serializedDefaultValue = JsStr ''none'',
      pm_deserializedDefaultValue = JsUndefined,
      pm_referenceHandler = None\<rparr>"

definition defaultingContext :: serializerContext where
  "defaultingContext =
     SerializerContext
       \<lparr>sco_jsonPathKey = KeyString ''field'',
        sco_typeMetadata = (exampleTypeMetadata setFn)
          \<lparr>tm_serializedDefaultValue := JsNum 0, tm_deserializedDefaultValue := JsNum 0\<rparr>,
        sco_propertyMetadata = Some defaultingProperty,
        sco_genericArguments = None,
        sco_referenceValueSetter = None\<rparr>
       (Some (rootContext (exampleTypeMetadata rootFn)))"

section \<open>The reference handler\<close>

lemma runReferenceCallbacks_heap:
  "runReferenceCallbacks cbs st =
     st\<lparr>heap := foldl (\<lambda>h cb. cb (referenceMap st) h) (heap st) cbs\<rparr>"
  by (induction cbs arbitrary: st) simp_all

lemma resolveReferenceCallbacks_heap:
  "resolveReferenceCallbacks k st =
     st\<lparr>heap := foldl (\<lambda>h cb. cb (referenceMap st) h) (heap st) (queuedCallbacks k st)\<rparr>"
  by (simp add: resolveReferenceCallbacks_def queuedCallbacks_def runReferenceCallbacks_heap
      split: option.splits)

lemma restore_is_define:
  "DirectReferenceHandler_restore = DirectReferenceHandler_define"
  by (intro ext) (simp add: DirectReferenceHandler_define_def DirectReferenceHandler_restore_def)

lemma define_first_visit:
  assumes "isNil (mapGet (referenceMap st) k)"
    and "init (st\<lparr>referenceMap := (referenceMap st)(k \<mapsto> JsRef k)\<rparr>) = Inr (v, st')"
  shows "DirectReferenceHandler_define k init st =
           Inr (v, st'\<lparr>referenceMap := (referenceMap st')(k \<mapsto> v),
                      heap := foldl (\<lambda>h cb. cb ((referenceMap st')(k \<mapsto> v)) h) (heap st')
                                (queuedCallbacks k st')\<rparr>)"
  using assms
  by (simp add: DirectReferenceHandler_define_def resolveReferenceCallbacks_heap queuedCallbacks_def)

lemma define_first_visit_error:
  assumes "isNil (mapGet (referenceMap st) k)"
    and "init (st\<lparr>referenceMap := (referenceMap st)(k \<mapsto> JsRef k)\<rparr>) = Inl e"
  shows "DirectReferenceHandler_define k init st = Inl e"
  using assms by (simp add: DirectReferenceHandler_define_def)

lemma define_in_progress:
  assumes "mapGet (referenceMap st) k = JsRef k"
  shows "DirectReferenceHandler_define k init st = Inr (JsResolver k, st)"
  using assms by (simp add: DirectReferenceHandler_define_def isNil_def)

lemma define_finished:
  assumes "\<not> isNil (mapGet (referenceMap st) k)" and "mapGet (referenceMap st) k \<noteq> JsRef k"
  shows "DirectReferenceHandler_define k init st = Inr (mapGet (referenceMap st) k, st)"
  using assms by (simp add: DirectReferenceHandler_define_def)

text \<open>
  C5. \<open>define\<close> (serialization) and \<open>restore\<close> (deserialization) follow the same
  algorithm: for every key, value initializer and state they return the same result and
  leave the same reference map, callback queue, heap and log.
\<close>

theorem define_restore_same:
  "DirectReferenceHandler_define referenceKey referenceValueInitializer st =
   DirectReferenceHandler_restore referenceKey referenceValueInitializer st"
  by (simp add: DirectReferenceHandler_define_def DirectReferenceHandler_restore_def)

text \<open>
  C1, as the code has it. Let \<open>entry\<close> be what the shared reference map returns for the
  key. The claim's first case is taken whenever \<open>entry\<close> is nil, that is when the key has
  no entry and also when its entry holds \<open>undefined\<close> or \<open>null\<close>: the placeholder
  \<open>key \<mapsto> key\<close> is inserted, the initializer runs once on that state, its result
  overwrites the entry, the callbacks queued for the key run in queue order on the map
  that holds the result, and the result is returned (an initializer that throws makes the
  handler throw). If \<open>entry\<close> is the key itself, the handler returns a resolver, which
  reads the map's entry of the moment it is called, and the state is untouched. Otherwise
  (\<open>entry\<close> is not nil and is not the key) the stored entry is returned and the state is
  untouched. This holds for \<open>define\<close> and for \<open>restore\<close>.
\<close>

theorem reference_handler_algorithm:
  assumes "handler = DirectReferenceHandler_define \<or> handler = DirectReferenceHandler_restore"
  shows
    "(isNil (mapGet (referenceMap st) k) \<and>
      init (st\<lparr>referenceMap := (referenceMap st)(k \<mapsto> JsRef k)\<rparr>) = Inr (v, st') \<longrightarrow>
        handler k init st =
          Inr (v, st'\<lparr>referenceMap := (referenceMap st')(k \<mapsto> v),
                     heap := foldl (\<lambda>h cb. cb ((referenceMap st')(k \<mapsto> v)) h) (heap st')
                               (queuedCallbacks k st')\<rparr>))
     \<and> (isNil (mapGet (referenceMap st) k) \<and>
        init (st\<lparr>referenceMap := (referenceMap st)(k \<mapsto> JsRef k)\<rparr>) = Inl e \<longrightarrow>
          handler k init st = Inl e)
     \<and> (mapGet (referenceMap st) k = JsRef k \<longrightarrow>
          handler k init st = Inr (JsResolver k, st) \<and>
          (\<forall>later. callResolver (JsResolver k) later = mapGet (referenceMap later) k))
     \<and> (\<not> isNil (mapGet (referenceMap st) k) \<and> mapGet (referenceMap st) k \<noteq> JsRef k \<longrightarrow>
          handler k init st = Inr (mapGet (referenceMap st) k, st))"
proof -
  have h: "handler = DirectReferenceHandler_define"
    using assms by (auto simp: restore_is_define)
  show ?thesis
    unfolding h
    by (simp add: define_first_visit define_first_visit_error define_in_progress define_finished)
qed

text \<open>
  An instance: the key 0 is visited for the first time; its initializer logs its own
  invocation, queues a callback that writes the resolved entry into the array at address
  1, and returns 7. The handler returns 7, the map holds 7 for the key, the callback has
  written 7, and the log shows one invocation. A second state holds the placeholder for
  the key and gives the resolver; a third holds a finished value and gives it back; and
  a first visit whose initializer throws, throws.
\<close>

theorem reference_handler_algorithm_witness:
  "(\<exists>st''. DirectReferenceHandler_define 0 loggingInitializer (freshState [SetObj [], ArrayObj []]) = Inr (JsNum 7, st'')
      \<and> referenceMap st'' 0 = Some (JsNum 7)
      \<and> heap st'' = [SetObj [], ArrayObj [JsNum 7]]
      \<and> logged st'' = [(''initializer invoked'', JsUndefined)])
   \<and> DirectReferenceHandler_restore 0 loggingInitializer
        ((freshState [SetObj []])\<lparr>referenceMap := [0 \<mapsto> JsRef 0]\<rparr>)
      = Inr (JsResolver 0, (freshState [SetObj []])\<lparr>referenceMap := [0 \<mapsto> JsRef 0]\<rparr>)
   \<and> DirectReferenceHandler_define 0 loggingInitializer
        ((freshState [SetObj [], ArrayObj []])\<lparr>referenceMap := [0 \<mapsto> JsRef 1]\<rparr>)
      = Inr (JsRef 1, (freshState [SetObj [], ArrayObj []])\<lparr>referenceMap := [0 \<mapsto> JsRef 1]\<rparr>)
   \<and> DirectReferenceHandler_restore 0 throwingInitializer (freshState [SetObj [], ArrayObj []])
      = Inl TypeError"
proof -
  let ?s0 = "freshState [SetObj [], ArrayObj []]"
  let ?st' = "pushReferenceCallback 0 (writeEntryToArray 0 1)
                (?s0\<lparr>referenceMap := (referenceMap ?s0)(0 \<mapsto> JsRef 0),
                      logged := [(''initializer invoked'', JsUndefined)]\<rparr>)"
  have nil0: "isNil (mapGet (referenceMap ?s0) 0)"
    by (simp add: freshState_def mapGet_def isNil_def)
  have run: "loggingInitializer (?s0\<lparr>referenceMap := (referenceMap ?s0)(0 \<mapsto> JsRef 0)\<rparr>)
               = Inr (JsNum 7, ?st')"
    by (simp add: loggingInitializer_def freshState_def)
  have first: "DirectReferenceHandler_define 0 loggingInitializer ?s0 =
          Inr (JsNum 7, ?st'\<lparr>referenceMap := (referenceMap ?st')(0 \<mapsto> JsNum 7),
                     heap := foldl (\<lambda>h cb. cb ((referenceMap ?st')(0 \<mapsto> JsNum 7)) h) (heap ?st')
                               (queuedCallbacks 0 ?st')\<rparr>)"
    using reference_handler_algorithm [of DirectReferenceHandler_define ?s0 0 loggingInitializer "JsNum 7" ?st']
      nil0 run by blast
  let ?s1 = "(freshState [SetObj []])\<lparr>referenceMap := [0 \<mapsto> JsRef 0]\<rparr>"
  have second: "DirectReferenceHandler_restore 0 loggingInitializer ?s1 = Inr (JsResolver 0, ?s1)"
    using reference_handler_algorithm [of DirectReferenceHandler_restore ?s1 0 loggingInitializer]
    by (simp add: mapGet_def)
  let ?s2 = "(freshState [SetObj [], ArrayObj []])\<lparr>referenceMap := [0 \<mapsto> JsRef 1]\<rparr>"
  have third: "DirectReferenceHandler_define 0 loggingInitializer ?s2 = Inr (JsRef 1, ?s2)"
    using reference_handler_algorithm [of DirectReferenceHandler_define ?s2 0 loggingInitializer]
    by (simp add: mapGet_def isNil_def)
  have throws: "throwingInitializer (?s0\<lparr>referenceMap := (referenceMap ?s0)(0 \<mapsto> JsRef 0)\<rparr>)
                  = Inl TypeError"
    by (simp add: throwingInitializer_def)
  have fourth: "DirectReferenceHandler_restore 0 throwingInitializer ?s0 = Inl TypeError"
    using reference_handler_algorithm [of DirectReferenceHandler_restore ?s0 0 throwingInitializer _ _ TypeError]
      nil0 throws by blast
  show ?thesis
    unfolding first
    using second third fourth
    by (simp add: pushReferenceCallback_def queuedCallbacks_def freshState_def writeEntryToArray_def
        mapGet_def)
qed

text \<open>
  C1 as stated fails where the key has an entry that holds \<open>null\<close> (as it does after
  a visit whose initializer returned \<open>null\<close>): the entry exists and is not the key, yet
  the handler does not return it; it runs the initializer and returns its result.
\<close>

theorem reference_handler_stored_null_counterexample:
  "DirectReferenceHandler_define 0 (constantInitializer JsNull) (freshState [SetObj []])
     = Inr (JsNull, (freshState [SetObj []])\<lparr>referenceMap := [0 \<mapsto> JsNull]\<rparr>)
   \<and> referenceMap ((freshState [SetObj []])\<lparr>referenceMap := [0 \<mapsto> JsNull]\<rparr>) 0 = Some JsNull
   \<and> JsNull \<noteq> JsRef 0
   \<and> DirectReferenceHandler_define 0 (constantInitializer (JsNum 7))
        ((freshState [SetObj []])\<lparr>referenceMap := [0 \<mapsto> JsNull]\<rparr>)
      \<noteq> Inr (JsNull, (freshState [SetObj []])\<lparr>referenceMap := [0 \<mapsto> JsNull]\<rparr>)
   \<and> DirectReferenceHandler_define 0 (constantInitializer (JsNum 7))
        ((freshState [SetObj []])\<lparr>referenceMap := [0 \<mapsto> JsNull]\<rparr>)
      = Inr (JsNum 7, (freshState [SetObj []])\<lparr>referenceMap := [0 \<mapsto> JsNum 7]\<rparr>)"
  by (simp add: DirectReferenceHandler_define_def constantInitializer_def freshState_def mapGet_def
      isNil_def resolveReferenceCallbacks_def)

lemma define_keeps_finished:
  assumes keep: "\<And>st w st'. referenceMap st k = Some v \<Longrightarrow> init st = Inr (w, st') \<Longrightarrow>
                   referenceMap st' k = Some v"
    and fin: "referenceMap st k = Some v" "\<not> isNil v" "v \<noteq> JsRef k"
    and run: "DirectReferenceHandler_define k' init st = Inr (w, st')"
  shows "referenceMap st' k = Some v"
proof (cases "k' = k")
  case True
  have "mapGet (referenceMap st) k = v"
    using fin(1) by (simp add: mapGet_def)
  then have "DirectReferenceHandler_define k init st = Inr (v, st)"
    using define_finished [of st k init] fin(2,3) by simp
  then show ?thesis using run True fin(1) by simp
next
  case False
  show ?thesis
  proof (cases "isNil (mapGet (referenceMap st) k')")
    case True
    let ?p = "st\<lparr>referenceMap := (referenceMap st)(k' \<mapsto> JsRef k')\<rparr>"
    obtain u st2 where init: "init ?p = Inr (u, st2)"
      using run True
      by (cases "init ?p") (auto simp: define_first_visit_error)
    have "referenceMap ?p k = Some v"
      using fin(1) False by simp
    then have kept: "referenceMap st2 k = Some v"
      using keep init by blast
    show ?thesis
      using run define_first_visit [of st k' init u st2] True init kept False by auto
  next
    case notnil: False
    show ?thesis
    proof (cases "mapGet (referenceMap st) k' = JsRef k'")
      case True
      then show ?thesis using run fin(1) define_in_progress [of st k' init] by simp
    next
      case False
      then show ?thesis using run fin(1) notnil define_finished [of st k' init] by simp
    qed
  qed
qed

lemma handlerActivity_keeps_finished:
  assumes "handlerActivity f"
    and "referenceMap st k = Some v" "\<not> isNil v" "v \<noteq> JsRef k"
    and "f st = Inr (w, st')"
  shows "referenceMap st' k = Some v"
  using assms
proof (induction f arbitrary: st w st' rule: handlerActivity.induct)
  case (step f)
  have "referenceMap st' = referenceMap st"
    by (rule step.hyps [OF step.prems(4)])
  then show ?case using step.prems(1) by simp
next
  case (visit_define init k')
  show ?case
  proof (rule define_keeps_finished [where init = init and k' = k' and st = st and w = w])
    show "referenceMap s' k = Some v" if "referenceMap s k = Some v" "init s = Inr (u, s')" for s u s'
      by (rule visit_define.IH [OF that(1) visit_define.prems(2,3) that(2)])
    show "referenceMap st k = Some v" by (rule visit_define.prems(1))
    show "\<not> isNil v" by (rule visit_define.prems(2))
    show "v \<noteq> JsRef k" by (rule visit_define.prems(3))
    show "DirectReferenceHandler_define k' init st = Inr (w, st')" by (rule visit_define.prems(4))
  qed
next
  case (visit_restore init k')
  have run: "DirectReferenceHandler_define k' init st = Inr (w, st')"
    using visit_restore.prems(4) by (simp add: restore_is_define)
  show ?case
  proof (rule define_keeps_finished [where init = init and k' = k' and st = st and w = w])
    show "referenceMap s' k = Some v" if "referenceMap s k = Some v" "init s = Inr (u, s')" for s u s'
      by (rule visit_restore.IH [OF that(1) visit_restore.prems(2,3) that(2)])
    show "referenceMap st k = Some v" by (rule visit_restore.prems(1))
    show "\<not> isNil v" by (rule visit_restore.prems(2))
    show "v \<noteq> JsRef k" by (rule visit_restore.prems(3))
    show "DirectReferenceHandler_define k' init st = Inr (w, st')" by (rule run)
  qed
next
  case (sequence f g)
  obtain u st1 where f: "f st = Inr (u, st1)" and g: "g u st1 = Inr (w, st')"
    using sequence.prems(4) by (cases "f st") auto
  have mid: "referenceMap st1 k = Some v"
    by (rule sequence.IH(1) [OF sequence.prems(1,2,3) f])
  show ?case
    by (rule sequence.IH(2) [OF mid sequence.prems(2,3) g])
qed

text \<open>
  C4, as the code has it. When a first visit of a key (one that found no entry, or a nil
  one) has completed with the value \<open>v\<close>, the map holds \<open>v\<close> for the key. If \<open>v\<close> is
  not nil and is not the key itself, every later call for the key, by \<open>define\<close> or by
  \<open>restore\<close>, right after the first visit or after any handler activity in between,
  returns \<open>v\<close> and leaves the state as it is, whatever its initializer: the initializer
  is not invoked.
\<close>

theorem finished_reference_is_reused:
  assumes "first = DirectReferenceHandler_define \<or> first = DirectReferenceHandler_restore"
    and "later = DirectReferenceHandler_define \<or> later = DirectReferenceHandler_restore"
    and "isNil (mapGet (referenceMap st) k)"
    and "first k init st = Inr (v, st1)"
    and "\<not> isNil v" and "v \<noteq> JsRef k"
    and "handlerActivity between" and "between st1 = Inr (w, st2)"
  shows "referenceMap st1 k = Some v \<and> later k init' st1 = Inr (v, st1) \<and>
         later k init' st2 = Inr (v, st2)"
proof -
  have f: "first = DirectReferenceHandler_define" and l: "later = DirectReferenceHandler_define"
    using assms(1,2) by (auto simp: restore_is_define)
  obtain u st' where run: "init (st\<lparr>referenceMap := (referenceMap st)(k \<mapsto> JsRef k)\<rparr>) = Inr (u, st')"
    using assms(3,4) unfolding f
    by (cases "init (st\<lparr>referenceMap := (referenceMap st)(k \<mapsto> JsRef k)\<rparr>)")
       (auto simp: define_first_visit_error)
  have stored: "referenceMap st1 k = Some v"
    using assms(4) define_first_visit [of st k init u st'] assms(3) run unfolding f by auto
  have kept: "referenceMap st2 k = Some v"
    using handlerActivity_keeps_finished [OF assms(7) stored assms(5,6,8)] .
  have reuse: "DirectReferenceHandler_define k init' s = Inr (v, s)" if "referenceMap s k = Some v" for s
    using define_finished [of s k init'] that assms(5,6) by (simp add: mapGet_def)
  show ?thesis
    using stored kept reuse unfolding l by simp
qed

text \<open>
  An instance: the set at address 0 is visited first with an initializer that returns the
  array at address 1; then the set at address 2 is visited; a later \<open>restore\<close> for the
  key 0, with an initializer that would return 9, gives the array at address 1 again.
\<close>

theorem finished_reference_is_reused_witness:
  "DirectReferenceHandler_define 0 (constantInitializer (JsRef 1))
       (freshState [SetObj [], ArrayObj [], SetObj [], ArrayObj []])
     = Inr (JsRef 1, (freshState [SetObj [], ArrayObj [], SetObj [], ArrayObj []])
                        \<lparr>referenceMap := [0 \<mapsto> JsRef 1]\<rparr>)
   \<and> DirectReferenceHandler_define 2 (constantInitializer (JsRef 3))
       ((freshState [SetObj [], ArrayObj [], SetObj [], ArrayObj []])\<lparr>referenceMap := [0 \<mapsto> JsRef 1]\<rparr>)
     = Inr (JsRef 3, (freshState [SetObj [], ArrayObj [], SetObj [], ArrayObj []])
                        \<lparr>referenceMap := [0 \<mapsto> JsRef 1, 2 \<mapsto> JsRef 3]\<rparr>)
   \<and> DirectReferenceHandler_restore 0 (constantInitializer (JsNum 9))
        ((freshState [SetObj [], ArrayObj [], SetObj [], ArrayObj []])
            \<lparr>referenceMap := [0 \<mapsto> JsRef 1, 2 \<mapsto> JsRef 3]\<rparr>)
     = Inr (JsRef 1, (freshState [SetObj [], ArrayObj [], SetObj [], ArrayObj []])
                        \<lparr>referenceMap := [0 \<mapsto> JsRef 1, 2 \<mapsto> JsRef 3]\<rparr>)"
proof -
  let ?s0 = "freshState [SetObj [], ArrayObj [], SetObj [], ArrayObj []]"
  let ?s1 = "?s0\<lparr>referenceMap := [0 \<mapsto> JsRef 1]\<rparr>"
  let ?s2 = "?s0\<lparr>referenceMap := [0 \<mapsto> JsRef 1, 2 \<mapsto> JsRef 3]\<rparr>"
  have nil0: "isNil (mapGet (referenceMap ?s0) 0)"
    by (simp add: freshState_def mapGet_def isNil_def)
  have first: "DirectReferenceHandler_define 0 (constantInitializer (JsRef 1)) ?s0 = Inr (JsRef 1, ?s1)"
    by (simp add: DirectReferenceHandler_define_def constantInitializer_def freshState_def
        mapGet_def isNil_def resolveReferenceCallbacks_def)
  have between: "DirectReferenceHandler_define 2 (constantInitializer (JsRef 3)) ?s1 = Inr (JsRef 3, ?s2)"
    by (simp add: DirectReferenceHandler_define_def constantInitializer_def freshState_def
        mapGet_def isNil_def resolveReferenceCallbacks_def)
  have activity: "handlerActivity (DirectReferenceHandler_define 2 (constantInitializer (JsRef 3)))"
    by (intro handlerActivity.visit_define handlerActivity.step) (simp add: constantInitializer_def)
  have notnil: "\<not> isNil (JsRef 1)"
    by (simp add: isNil_def)
  have distinct: "JsRef 1 \<noteq> JsRef 0"
    by simp
  have "DirectReferenceHandler_restore 0 (constantInitializer (JsNum 9)) ?s2 = Inr (JsRef 1, ?s2)"
    using finished_reference_is_reused
            [OF disjI1 [OF refl] disjI2 [OF refl] nil0 first notnil distinct activity between]
    by simp
  then show ?thesis using first between by simp
qed

text \<open>
  C4 as stated fails for an initializer that produces the key itself: the first visit
  completes and stores the key as the value, and the later call takes the stored value for
  the placeholder, so it returns a resolver and not the produced value.
\<close>

theorem finished_reference_key_itself_counterexample:
  "DirectReferenceHandler_define 0 (constantInitializer (JsRef 0)) (freshState [SetObj []])
     = Inr (JsRef 0, (freshState [SetObj []])\<lparr>referenceMap := [0 \<mapsto> JsRef 0]\<rparr>)
   \<and> DirectReferenceHandler_define 0 (constantInitializer (JsRef 0))
        ((freshState [SetObj []])\<lparr>referenceMap := [0 \<mapsto> JsRef 0]\<rparr>)
     = Inr (JsResolver 0, (freshState [SetObj []])\<lparr>referenceMap := [0 \<mapsto> JsRef 0]\<rparr>)
   \<and> JsResolver 0 \<noteq> JsRef 0"
  by (simp add: DirectReferenceHandler_define_def constantInitializer_def freshState_def mapGet_def
      isNil_def resolveReferenceCallbacks_def)

section \<open>Polymorphic and generic contexts\<close>

lemma scanDiscriminantMap_find:
  assumes "heapGet h a = Some (RecordObj props)"
    and "\<forall>(t, d) \<in> set dm. resolver t = Inr (meta t)"
  shows "scanDiscriminantMap resolver h ctx (JsRef a) dm =
     (case find (\<lambda>(t, d). recordField props (tm_discriminator (meta t)) = d) dm of
        None \<Rightarrow> Inl (CannotDefineDiscriminant (jsonPath ctx))
      | Some (t, d) \<Rightarrow>
          Inr (SerializerContext ((serializerContextOptions ctx)\<lparr>sco_typeMetadata := meta t\<rparr>)
                                 (parentSerializerContext ctx)))"
  using assms
  by (induction dm) (auto simp: defineTypeMetadata_def getProperty_def recordField_def)

lemma byTypeFn_missing:
  "map_of (discriminantMap ctx) x = None \<Longrightarrow>
   definePolymorphicSerializerContextByTypeFn resolver ctx x =
     Inl (CannotDefineDiscriminant (jsonPath ctx))"
  by (simp add: definePolymorphicSerializerContextByTypeFn_def isNil_def)

lemma byTypeFn_found:
  "map_of (discriminantMap ctx) x = Some d \<Longrightarrow> \<not> isNil d \<Longrightarrow> resolver x = Inr tm \<Longrightarrow>
   definePolymorphicSerializerContextByTypeFn resolver ctx x =
     Inr (SerializerContext ((serializerContextOptions ctx)\<lparr>sco_typeMetadata := tm\<rparr>)
                            (parentSerializerContext ctx))"
  by (simp add: definePolymorphicSerializerContextByTypeFn_def defineTypeMetadata_def)

lemma exampleResolver_ctor:
  "isCtorFunction t \<Longrightarrow> exampleResolver t = Inr (exampleTypeMetadata t)"
  by (cases t) (auto simp: exampleResolver_def resolveTypeMetadata_def isCtorFunction_def isNil_def)

text \<open>
  C3. With a concrete type reference (a constructor function) the discriminant is looked
  up in the discriminant map: a missing entry raises the configuration error, and a
  present one gives the context of the resolved metadata of that type. With a raw record
  the map is scanned in order and the first member whose discriminator field in the
  record equals the member's discriminant is selected; when no member matches, the
  configuration error is raised. (Each member's metadata is what the resolver gives for
  its type function.)
\<close>

theorem polymorphic_context_resolution:
  "(isCtorFunction x \<and> map_of (discriminantMap ctx) x = None \<longrightarrow>
      definePolymorphicSerializerContext resolver h ctx x =
        Inl (CannotDefineDiscriminant (jsonPath ctx)))
   \<and> (isCtorFunction x \<and> map_of (discriminantMap ctx) x = Some d \<and> \<not> isNil d \<and>
       resolver x = Inr tm \<longrightarrow>
      definePolymorphicSerializerContext resolver h ctx x =
        Inr (SerializerContext ((serializerContextOptions ctx)\<lparr>sco_typeMetadata := tm\<rparr>)
                               (parentSerializerContext ctx)))
   \<and> (heapGet h a = Some (RecordObj props) \<and>
       (\<forall>(t, d) \<in> set (discriminantMap ctx). resolver t = Inr (meta t)) \<longrightarrow>
      definePolymorphicSerializerContext resolver h ctx (JsRef a) =
        (case find (\<lambda>(t, d). recordField props (tm_discriminator (meta t)) = d)
                   (discriminantMap ctx) of
           None \<Rightarrow> Inl (CannotDefineDiscriminant (jsonPath ctx))
         | Some (t, d) \<Rightarrow>
             Inr (SerializerContext ((serializerContextOptions ctx)\<lparr>sco_typeMetadata := meta t\<rparr>)
                                    (parentSerializerContext ctx))))"
  by (simp add: definePolymorphicSerializerContext_def byTypeFn_missing byTypeFn_found
      definePolymorphicSerializerContextByDiscriminant_def scanDiscriminantMap_find
      isCtorFunction_def)

text \<open>
  An instance, with members \<open>A\<close> and \<open>B\<close>: the type function \<open>B\<close> gives \<open>B\<close>'s context,
  the unregistered type function \<open>C\<close> raises the configuration error, the record
  \<open>{tag: "B", ...}\<close> gives \<open>B\<close>'s context and the record \<open>{tag: "C"}\<close> raises the
  configuration error.
\<close>

theorem polymorphic_context_resolution_witness:
  "definePolymorphicSerializerContext exampleResolver exampleRecords polymorphicContext typeFnB
     = Inr (rootContext (exampleTypeMetadata typeFnB))
   \<and> definePolymorphicSerializerContext exampleResolver exampleRecords polymorphicContext typeFnC
     = Inl (CannotDefineDiscriminant ''$'')
   \<and> definePolymorphicSerializerContext exampleResolver exampleRecords polymorphicContext (JsRef 0)
     = Inr (rootContext (exampleTypeMetadata typeFnB))
   \<and> definePolymorphicSerializerContext exampleResolver exampleRecords polymorphicContext (JsRef 1)
     = Inl (CannotDefineDiscriminant ''$'')"
proof -
  have dm: "discriminantMap polymorphicContext = [(typeFnA, JsStr ''A''), (typeFnB, JsStr ''B'')]"
    by (simp add: discriminantMap_def polymorphicContext_def typeMetadata_def rootContext_def)
  have ctors: "isCtorFunction typeFnA" "isCtorFunction typeFnB" "isCtorFunction typeFnC"
    by (simp_all add: isCtorFunction_def typeFnA_def typeFnB_def typeFnC_def)
  have members: "\<forall>(t, d) \<in> set (discriminantMap polymorphicContext).
                    exampleResolver t = Inr (exampleTypeMetadata t)"
    by (simp add: dm exampleResolver_ctor ctors)
  have r0: "heapGet exampleRecords 0 = Some (RecordObj [(''tag'', JsStr ''B''), (''title'', JsStr ''b'')])"
    and r1: "heapGet exampleRecords 1 = Some (RecordObj [(''tag'', JsStr ''C'')])"
    by (simp_all add: heapGet_def exampleRecords_def)
  have lookB: "map_of (discriminantMap polymorphicContext) typeFnB = Some (JsStr ''B'')"
    and lookC: "map_of (discriminantMap polymorphicContext) typeFnC = None"
    by (simp_all add: dm typeFnA_def typeFnB_def typeFnC_def)
  have notnil: "\<not> isNil (JsStr ''B'')"
    by (simp add: isNil_def)
  have path: "jsonPath polymorphicContext = ''$''"
    by (simp add: polymorphicContext_def rootContext_def)
  have opts: "SerializerContext ((serializerContextOptions polymorphicContext)\<lparr>sco_typeMetadata := tm\<rparr>)
                 (parentSerializerContext polymorphicContext) = rootContext tm" for tm
    by (simp add: polymorphicContext_def rootContext_def)
  note inst = polymorphic_context_resolution [where resolver = exampleResolver and h = exampleRecords
      and ctx = polymorphicContext and meta = exampleTypeMetadata]
  have 1: "definePolymorphicSerializerContext exampleResolver exampleRecords polymorphicContext typeFnB
     = Inr (rootContext (exampleTypeMetadata typeFnB))"
    using inst [where x = typeFnB and d = "JsStr ''B''" and tm = "exampleTypeMetadata typeFnB"]
      ctors lookB notnil exampleResolver_ctor [of typeFnB] by (simp add: opts)
  have 2: "definePolymorphicSerializerContext exampleResolver exampleRecords polymorphicContext typeFnC
     = Inl (CannotDefineDiscriminant ''$'')"
    using inst [where x = typeFnC] ctors lookC by (simp add: path)
  have 3: "definePolymorphicSerializerContext exampleResolver exampleRecords polymorphicContext (JsRef 0)
     = Inr (rootContext (exampleTypeMetadata typeFnB))"
    using inst [where a = 0 and props = "[(''tag'', JsStr ''B''), (''title'', JsStr ''b'')]"] r0 members
    by (simp add: dm opts recordField_def exampleTypeMetadata_def)
  have 4: "definePolymorphicSerializerContext exampleResolver exampleRecords polymorphicContext (JsRef 1)
     = Inl (CannotDefineDiscriminant ''$'')"
    using inst [where a = 1 and props = "[(''tag'', JsStr ''C'')]"] r1 members
    by (simp add: dm path recordField_def exampleTypeMetadata_def)
  show ?thesis using 1 2 3 4 by simp
qed

lemma defineGeneric_absent:
  "genericArguments ctx = None \<Longrightarrow>
   defineGenericSerializerContext resolver ctx i = Inl (CannotDefineGenericArguments (jsonPath ctx))"
  by (simp add: defineGenericSerializerContext_def)

lemma defineGeneric_out_of_range:
  "genericArguments ctx = Some gs \<Longrightarrow> \<not> (0 \<le> i \<and> i < int (length gs)) \<Longrightarrow>
   defineGenericSerializerContext resolver ctx i = Inl (CannotDefineGenericArgument (jsonPath ctx) i)"
  by (auto simp: defineGenericSerializerContext_def arrayAt_def)

lemma defineGeneric_nil_entry:
  "genericArguments ctx = Some gs \<Longrightarrow> 0 \<le> i \<Longrightarrow> i < int (length gs) \<Longrightarrow>
   isNilGenericArgument (gs ! nat i) \<Longrightarrow>
   defineGenericSerializerContext resolver ctx i = Inl (CannotDefineGenericArgument (jsonPath ctx) i)"
  by (auto simp: defineGenericSerializerContext_def arrayAt_def)

lemma defineGeneric_in_range:
  "genericArguments ctx = Some gs \<Longrightarrow> 0 \<le> i \<Longrightarrow> i < int (length gs) \<Longrightarrow>
   \<not> isNilGenericArgument (gs ! nat i) \<Longrightarrow>
   defineGenericSerializerContext resolver ctx i =
     (case resolver (genericTypeArgument (gs ! nat i)) of
        Inl e \<Rightarrow> Inl e
      | Inr tm \<Rightarrow>
          Inr (SerializerContext
                 ((serializerContextOptions ctx)
                    \<lparr>sco_typeMetadata := tm,
                     sco_genericArguments := genericGenericArguments (gs ! nat i),
                     sco_propertyMetadata := None\<rparr>)
                 (parentSerializerContext ctx)))"
  by (auto simp: defineGenericSerializerContext_def arrayAt_def defineTypeMetadata_def)

text \<open>
  C8, as the code has it. \<open>defineGenericSerializerContext(i)\<close> throws a configuration
  error whenever the effective generic arguments are absent, \<open>i\<close> is out of their range,
  or the entry at \<open>i\<close> is nil. Otherwise it resolves the type argument of generic argument
  \<open>i\<close>: when that resolution fails its configuration error is thrown, and when it
  succeeds the result is
  a context whose Type Metadata is the resolved metadata, whose generic arguments option
  is the argument's nested generic arguments when it is a pair (absent when it is not),
  which carries no property metadata and keeps the parent of the context.
\<close>

theorem generic_context_resolution:
  "(genericArguments ctx = None \<longrightarrow>
      defineGenericSerializerContext resolver ctx i =
        Inl (CannotDefineGenericArguments (jsonPath ctx)))
   \<and> (genericArguments ctx = Some gs \<and> \<not> (0 \<le> i \<and> i < int (length gs)) \<longrightarrow>
      defineGenericSerializerContext resolver ctx i =
        Inl (CannotDefineGenericArgument (jsonPath ctx) i))
   \<and> (genericArguments ctx = Some gs \<and> 0 \<le> i \<and> i < int (length gs) \<and>
       isNilGenericArgument (gs ! nat i) \<longrightarrow>
      defineGenericSerializerContext resolver ctx i =
        Inl (CannotDefineGenericArgument (jsonPath ctx) i))
   \<and> (genericArguments ctx = Some gs \<and> 0 \<le> i \<and> i < int (length gs) \<and>
       \<not> isNilGenericArgument (gs ! nat i) \<and>
       resolver (genericTypeArgument (gs ! nat i)) = Inl e \<longrightarrow>
      defineGenericSerializerContext resolver ctx i = Inl e)
   \<and> (genericArguments ctx = Some gs \<and> 0 \<le> i \<and> i < int (length gs) \<and>
       \<not> isNilGenericArgument (gs ! nat i) \<and>
       resolver (genericTypeArgument (gs ! nat i)) = Inr tm \<longrightarrow>
      (\<exists>ctx'. defineGenericSerializerContext resolver ctx i = Inr ctx' \<and>
              typeMetadata ctx' = tm \<and>
              sco_genericArguments (serializerContextOptions ctx') = genericGenericArguments (gs ! nat i) \<and>
              propertyMetadata ctx' = None \<and>
              jsonPathKey ctx' = jsonPathKey ctx \<and>
              parentSerializerContext ctx' = parentSerializerContext ctx))"
  by (simp add: defineGeneric_absent defineGeneric_out_of_range defineGeneric_nil_entry
      defineGeneric_in_range typeMetadata_def propertyMetadata_def jsonPathKey_def)

text \<open>
  An instance: a context whose generic arguments are the pair \<open>[Set, [Number]]\<close> and the
  alias "Unknown". Index 0 gives a context of \<open>Set\<close>'s metadata with the generic
  arguments \<open>[Number]\<close>; index 2 and index -1 are out of range; a context without generic
  arguments raises the other configuration error; index 1 raises the error of resolving
  the alias; and in a context whose only generic argument is \<open>null\<close>, index 0 raises the
  index error.
\<close>

theorem generic_context_resolution_witness:
  "(\<exists>ctx'. defineGenericSerializerContext exampleResolver nestedSetContext 0 = Inr ctx' \<and>
           typeMetadata ctx' = exampleTypeMetadata setFn \<and>
           genericArguments ctx' = Some [TypeArgument numberFn])
   \<and> defineGenericSerializerContext exampleResolver nestedSetContext 2
       = Inl (CannotDefineGenericArgument ''$'' 2)
   \<and> defineGenericSerializerContext exampleResolver nestedSetContext (- 1)
       = Inl (CannotDefineGenericArgument ''$'' (- 1))
   \<and> defineGenericSerializerContext exampleResolver polymorphicContext 0
       = Inl (CannotDefineGenericArguments ''$'')
   \<and> defineGenericSerializerContext exampleResolver nestedSetContext 1
       = Inl (CannotResolveTypeMetadata (JsStr ''Unknown''))
   \<and> defineGenericSerializerContext exampleResolver nilArgumentContext 0
       = Inl (CannotDefineGenericArgument ''$'' 0)"
proof -
  let ?gs = "[TypeArgumentWith setFn [TypeArgument numberFn], TypeArgument (JsStr ''Unknown'')]"
  have gs: "genericArguments nestedSetContext = Some ?gs"
    by (simp add: genericArguments_def nestedSetContext_def rootContext_def propertyMetadata_def
        typeMetadata_def)
  have none: "genericArguments polymorphicContext = None"
    by (simp add: genericArguments_def polymorphicContext_def rootContext_def propertyMetadata_def
        typeMetadata_def exampleTypeMetadata_def)
  have path: "jsonPath nestedSetContext = ''$''" "jsonPath polymorphicContext = ''$''"
    by (simp_all add: nestedSetContext_def polymorphicContext_def rootContext_def)
  have res: "exampleResolver (genericTypeArgument (?gs ! nat 0)) = Inr (exampleTypeMetadata setFn)"
    by (simp add: exampleResolver_ctor isCtorFunction_def setFn_def)
  note inst = generic_context_resolution [where resolver = exampleResolver]
  have 1: "\<exists>ctx'. defineGenericSerializerContext exampleResolver nestedSetContext 0 = Inr ctx' \<and>
           typeMetadata ctx' = exampleTypeMetadata setFn \<and>
           genericArguments ctx' = Some [TypeArgument numberFn]"
    using inst [where ctx = nestedSetContext and i = 0 and gs = ?gs and tm = "exampleTypeMetadata setFn"]
      gs res
    by (auto simp: genericArguments_def)
  have 2: "defineGenericSerializerContext exampleResolver nestedSetContext 2
       = Inl (CannotDefineGenericArgument ''$'' 2)"
    using inst [where ctx = nestedSetContext and i = 2 and gs = ?gs] gs by (simp add: path)
  have 3: "defineGenericSerializerContext exampleResolver nestedSetContext (- 1)
       = Inl (CannotDefineGenericArgument ''$'' (- 1))"
    using inst [where ctx = nestedSetContext and i = "- 1" and gs = ?gs] gs by (simp add: path)
  have 4: "defineGenericSerializerContext exampleResolver polymorphicContext 0
       = Inl (CannotDefineGenericArguments ''$'')"
    using inst [where ctx = polymorphicContext and i = 0] none by (simp add: path)
  have unknown: "exampleResolver (genericTypeArgument (?gs ! nat 1)) =
                   Inl (CannotResolveTypeMetadata (JsStr ''Unknown''))"
    by (simp add: exampleResolver_def resolveTypeMetadata_def isNil_def)
  have 5: "defineGenericSerializerContext exampleResolver nestedSetContext 1
       = Inl (CannotResolveTypeMetadata (JsStr ''Unknown''))"
    using inst [where ctx = nestedSetContext and i = 1 and gs = ?gs
        and e = "CannotResolveTypeMetadata (JsStr ''Unknown'')"] gs unknown
    by (simp add: isNil_def)
  have nilgs: "genericArguments nilArgumentContext = Some [TypeArgument JsNull]"
    by (simp add: genericArguments_def nilArgumentContext_def rootContext_def propertyMetadata_def
        typeMetadata_def)
  have nilpath: "jsonPath nilArgumentContext = ''$''"
    by (simp add: nilArgumentContext_def rootContext_def)
  have 6: "defineGenericSerializerContext exampleResolver nilArgumentContext 0
       = Inl (CannotDefineGenericArgument ''$'' 0)"
    using inst [where ctx = nilArgumentContext and i = 0 and gs = "[TypeArgument JsNull]"] nilgs
    by (simp add: nilpath isNil_def)
  show ?thesis using 1 2 3 4 5 6 by simp
qed

text \<open>
  C8 as stated fails where the generic arguments are present and the index is in range
  but the argument does not resolve: the alias "Unknown" at index 1 is not registered,
  and the configuration error of the resolution is thrown.
\<close>

theorem generic_context_unknown_alias_counterexample:
  "genericArguments nestedSetContext =
     Some [TypeArgumentWith setFn [TypeArgument numberFn], TypeArgument (JsStr ''Unknown'')]
   \<and> (0::int) \<le> 1
   \<and> (1::int) < int (length [TypeArgumentWith setFn [TypeArgument numberFn], TypeArgument (JsStr ''Unknown'')])
   \<and> defineGenericSerializerContext exampleResolver nestedSetContext 1
       = Inl (CannotResolveTypeMetadata (JsStr ''Unknown''))"
  by (simp add: genericArguments_def nestedSetContext_def rootContext_def propertyMetadata_def
      typeMetadata_def defineGenericSerializerContext_def arrayAt_def defineTypeMetadata_def
      exampleResolver_def resolveTypeMetadata_def isNil_def)

text \<open>
  C9. \<open>definePolymorphicSerializerContext(x)\<close> looks \<open>x\<close> up in the discriminant map
  exactly when \<open>x\<close> is a function whose name is not empty. Every other value, an
  anonymous function included, is scanned for as a record would be, by reading
  discriminator fields from it, even when it is itself a key of the discriminant map.
\<close>

theorem polymorphic_context_mode:
  "(isFunction x \<and> functionName x \<noteq> [] \<longrightarrow>
      definePolymorphicSerializerContext resolver h ctx x =
        definePolymorphicSerializerContextByTypeFn resolver ctx x)
   \<and> (\<not> (isFunction x \<and> functionName x \<noteq> []) \<longrightarrow>
      definePolymorphicSerializerContext resolver h ctx x =
        scanDiscriminantMap resolver h ctx x (discriminantMap ctx))
   \<and> definePolymorphicSerializerContext resolver h ctx (JsFunc n []) =
        scanDiscriminantMap resolver h ctx (JsFunc n []) (discriminantMap ctx)"
  by (simp add: definePolymorphicSerializerContext_def isCtorFunction_def
      definePolymorphicSerializerContextByDiscriminant_def)

text \<open>
  An instance, on the root with members \<open>A\<close> and \<open>B\<close>: an anonymous function is not
  looked up; the members are scanned against it, it has no \<open>tag\<close> field, and the
  configuration error is raised. The named function \<open>B\<close> is looked up.
\<close>

theorem polymorphic_context_mode_witness:
  "definePolymorphicSerializerContext exampleResolver [] polymorphicContext anonymousFn
     = scanDiscriminantMap exampleResolver [] polymorphicContext anonymousFn
         [(typeFnA, JsStr ''A''), (typeFnB, JsStr ''B'')]
   \<and> definePolymorphicSerializerContext exampleResolver [] polymorphicContext anonymousFn
       = Inl (CannotDefineDiscriminant ''$'')
   \<and> definePolymorphicSerializerContext exampleResolver [] polymorphicContext typeFnB
       = Inr (rootContext (exampleTypeMetadata typeFnB))"
proof -
  have dm: "discriminantMap polymorphicContext = [(typeFnA, JsStr ''A''), (typeFnB, JsStr ''B'')]"
    by (simp add: discriminantMap_def polymorphicContext_def typeMetadata_def rootContext_def)
  have anon: "\<not> (isFunction anonymousFn \<and> functionName anonymousFn \<noteq> [])"
    by (simp add: anonymousFn_def)
  have named: "isFunction typeFnB \<and> functionName typeFnB \<noteq> []"
    by (simp add: typeFnB_def)
  have 1: "definePolymorphicSerializerContext exampleResolver [] polymorphicContext anonymousFn
             = scanDiscriminantMap exampleResolver [] polymorphicContext anonymousFn
                 (discriminantMap polymorphicContext)"
    using polymorphic_context_mode [of anonymousFn exampleResolver "[]" polymorphicContext] anon
    by blast
  have 2: "definePolymorphicSerializerContext exampleResolver [] polymorphicContext typeFnB
             = definePolymorphicSerializerContextByTypeFn exampleResolver polymorphicContext typeFnB"
    using polymorphic_context_mode [of typeFnB exampleResolver "[]" polymorphicContext] named
    by blast
  have scan: "scanDiscriminantMap exampleResolver [] polymorphicContext anonymousFn
                [(typeFnA, JsStr ''A''), (typeFnB, JsStr ''B'')] = Inl (CannotDefineDiscriminant ''$'')"
    by (simp add: defineTypeMetadata_def exampleResolver_ctor isCtorFunction_def typeFnA_def
        typeFnB_def getProperty_def anonymousFn_def exampleTypeMetadata_def polymorphicContext_def
        rootContext_def)
  have lookB: "map_of (discriminantMap polymorphicContext) typeFnB = Some (JsStr ''B'')"
    by (simp add: dm typeFnA_def typeFnB_def)
  have resB: "exampleResolver typeFnB = Inr (exampleTypeMetadata typeFnB)"
    using named by (simp add: exampleResolver_ctor isCtorFunction_def)
  have look: "definePolymorphicSerializerContextByTypeFn exampleResolver polymorphicContext typeFnB
                = Inr (rootContext (exampleTypeMetadata typeFnB))"
    using byTypeFn_found [of polymorphicContext typeFnB "JsStr ''B''" exampleResolver
        "exampleTypeMetadata typeFnB"] lookB resB
    by (simp add: isNil_def polymorphicContext_def rootContext_def)
  show ?thesis
    unfolding 1 2 dm scan look by simp
qed

section \<open>The set serializer\<close>

lemma serialize_undefined:
  "SetSerializer_serialize resolver serialize JsUndefined ctx st = Inr (serializedDefaultValue ctx, st)"
  by (simp add: SetSerializer_serialize_def)

lemma serialize_null:
  "SetSerializer_serialize resolver serialize JsNull ctx st = Inr (serializedNullValue ctx, st)"
  by (simp add: SetSerializer_serialize_def)

lemma deserialize_undefined:
  "SetSerializer_deserialize resolver deserialize JsUndefined ctx st = Inr (deserializedDefaultValue ctx, st)"
  by (simp add: SetSerializer_deserialize_def)

lemma deserialize_null:
  "SetSerializer_deserialize resolver deserialize JsNull ctx st = Inr (deserializedNullValue ctx, st)"
  by (simp add: SetSerializer_deserialize_def)

text \<open>
  C6. The set serializer returns the context's default value for an absent input and the
  context's null value for a null input. An input that is neither absent, nor null, nor a
  set (for \<open>deserialize\<close>: nor an array) is a shape mismatch: the serializer does not
  throw, it returns \<open>undefined\<close>, and it logs the mismatch at error level exactly when
  error logging is enabled.
\<close>

theorem set_serializer_input_handling:
  "SetSerializer_serialize resolver serialize JsUndefined ctx st = Inr (serializedDefaultValue ctx, st)
   \<and> SetSerializer_serialize resolver serialize JsNull ctx st = Inr (serializedNullValue ctx, st)
   \<and> (\<not> isUndefined x \<and> \<not> isNull x \<and> \<not> isSet (heap st) x \<longrightarrow>
        SetSerializer_serialize resolver serialize x ctx st =
          Inr (JsUndefined,
               if logErrorEnabled ctx
               then st\<lparr>logged := logged st @ [(jsonPath ctx @ '': cannot serialize value as set.'', x)]\<rparr>
               else st))
   \<and> SetSerializer_deserialize resolver deserialize JsUndefined ctx st = Inr (deserializedDefaultValue ctx, st)
   \<and> SetSerializer_deserialize resolver deserialize JsNull ctx st = Inr (deserializedNullValue ctx, st)
   \<and> (\<not> isUndefined x \<and> \<not> isNull x \<and> \<not> isArray (heap st) x \<longrightarrow>
        SetSerializer_deserialize resolver deserialize x ctx st =
          Inr (JsUndefined,
               if logErrorEnabled ctx
               then st\<lparr>logged := logged st @ [(jsonPath ctx @ '': cannot deserialize value as set.'', x)]\<rparr>
               else st))"
  by (simp add: serialize_undefined serialize_null deserialize_undefined deserialize_null
      SetSerializer_serialize_def SetSerializer_deserialize_def)

text \<open>
  An instance: a set-typed field receives the number 5 on deserialization, and an array
  (not a set) on serialization. Both calls return \<open>undefined\<close> and log one error.
\<close>

theorem set_serializer_input_handling_witness:
  "SetSerializer_deserialize exampleResolver passThrough (JsNum 5) defaultingContext (freshState [])
     = Inr (JsUndefined,
            (freshState [])\<lparr>logged := [(''$['' @ [CHR 0x27] @ ''field'' @ [CHR 0x27] @ '']: cannot deserialize value as set.'', JsNum 5)]\<rparr>)
   \<and> SetSerializer_serialize exampleResolver passThrough (JsRef 0) defaultingContext (freshState [ArrayObj []])
     = Inr (JsUndefined,
            (freshState [ArrayObj []])\<lparr>logged := [(''$['' @ [CHR 0x27] @ ''field'' @ [CHR 0x27] @ '']: cannot serialize value as set.'', JsRef 0)]\<rparr>)"
proof -
  have log: "logErrorEnabled defaultingContext"
    by (simp add: logErrorEnabled_def defaultingContext_def typeMetadata_def exampleTypeMetadata_def)
  have path: "jsonPath defaultingContext = ''$['' @ [CHR 0x27] @ ''field'' @ [CHR 0x27] @ '']''"
    by (simp add: defaultingContext_def rootContext_def)
  have a: "\<not> isUndefined (JsNum 5) \<and> \<not> isNull (JsNum 5) \<and> \<not> isArray (heap (freshState [])) (JsNum 5)"
    by (simp add: isArray_def)
  have b: "\<not> isUndefined (JsRef 0) \<and> \<not> isNull (JsRef 0) \<and> \<not> isSet (heap (freshState [ArrayObj []])) (JsRef 0)"
    by (simp add: isSet_def freshState_def heapGet_def)
  have 1: "SetSerializer_deserialize exampleResolver passThrough (JsNum 5) defaultingContext (freshState [])
     = Inr (JsUndefined, (freshState [])\<lparr>logged := logged (freshState []) @
          [(jsonPath defaultingContext @ '': cannot deserialize value as set.'', JsNum 5)]\<rparr>)"
    using set_serializer_input_handling [of exampleResolver passThrough defaultingContext "freshState []" "JsNum 5" passThrough]
      a log by simp
  have 2: "SetSerializer_serialize exampleResolver passThrough (JsRef 0) defaultingContext (freshState [ArrayObj []])
     = Inr (JsUndefined, (freshState [ArrayObj []])\<lparr>logged := logged (freshState [ArrayObj []]) @
          [(jsonPath defaultingContext @ '': cannot serialize value as set.'', JsRef 0)]\<rparr>)"
    using set_serializer_input_handling [of exampleResolver passThrough defaultingContext "freshState [ArrayObj []]" "JsRef 0" passThrough]
      b log by simp
  show ?thesis
    unfolding 1 2 path by (simp add: freshState_def)
qed

text \<open>
  C7. With null preservation enabled, a null input yields null. With null preservation
  disabled and default substitution enabled, a null input yields the configured default:
  the property-level default when the property has one (a value that is not nil), else
  the type-level default. With default substitution disabled, the default for an absent
  input is \<open>undefined\<close>. The same holds for the deserialized null and default values.
\<close>

theorem null_default_policy:
  "(preserveNull ctx \<longrightarrow>
      SetSerializer_serialize resolver serialize JsNull ctx st = Inr (JsNull, st) \<and>
      SetSerializer_deserialize resolver deserialize JsNull ctx st = Inr (JsNull, st))
   \<and> (\<not> preserveNull ctx \<and> useDefaultValue ctx \<longrightarrow>
      SetSerializer_serialize resolver serialize JsNull ctx st =
        Inr (case propertyMetadata ctx of
               None \<Rightarrow> tm_serializedDefaultValue (typeMetadata ctx)
             | Some pm \<Rightarrow> if isNil (pm_serializedDefaultValue pm)
                          then tm_serializedDefaultValue (typeMetadata ctx)
                          else pm_serializedDefaultValue pm, st) \<and>
      SetSerializer_deserialize resolver deserialize JsNull ctx st =
        Inr (case propertyMetadata ctx of
               None \<Rightarrow> tm_deserializedDefaultValue (typeMetadata ctx)
             | Some pm \<Rightarrow> if isNil (pm_deserializedDefaultValue pm)
                          then tm_deserializedDefaultValue (typeMetadata ctx)
                          else pm_deserializedDefaultValue pm, st))
   \<and> (\<not> useDefaultValue ctx \<longrightarrow>
      serializedDefaultValue ctx = JsUndefined \<and>
      deserializedDefaultValue ctx = JsUndefined \<and>
      SetSerializer_serialize resolver serialize JsUndefined ctx st = Inr (JsUndefined, st) \<and>
      SetSerializer_deserialize resolver deserialize JsUndefined ctx st = Inr (JsUndefined, st))"
  by (simp add: serialize_undefined serialize_null deserialize_undefined deserialize_null
      serializedNullValue_def deserializedNullValue_def serializedDefaultValue_def
      deserializedDefaultValue_def nullish_def split: option.splits)

text \<open>
  An instance: in the context whose property disables null preservation and enables
  default substitution, serializing null yields the property's default "none" and
  deserializing null yields the type's default 0 (the property has no deserialized
  default); in a root context of the base options null stays null and an absent input
  stays absent.
\<close>

theorem null_default_policy_witness:
  "SetSerializer_serialize exampleResolver passThrough JsNull defaultingContext (freshState [])
     = Inr (JsStr ''none'', freshState [])
   \<and> SetSerializer_deserialize exampleResolver passThrough JsNull defaultingContext (freshState [])
     = Inr (JsNum 0, freshState [])
   \<and> SetSerializer_serialize exampleResolver passThrough JsNull numberSetContext (freshState [])
     = Inr (JsNull, freshState [])
   \<and> SetSerializer_serialize exampleResolver passThrough JsUndefined numberSetContext (freshState [])
     = Inr (JsUndefined, freshState [])"
proof -
  have pm: "propertyMetadata defaultingContext = Some defaultingProperty"
    by (simp add: propertyMetadata_def defaultingContext_def)
  have flags: "\<not> preserveNull defaultingContext \<and> useDefaultValue defaultingContext"
    by (simp add: preserveNull_def useDefaultValue_def pm defaultingProperty_def)
  have tmd: "tm_deserializedDefaultValue (typeMetadata defaultingContext) = JsNum 0"
    by (simp add: typeMetadata_def defaultingContext_def)
  have base: "preserveNull numberSetContext" "\<not> useDefaultValue numberSetContext"
    by (simp_all add: preserveNull_def useDefaultValue_def propertyMetadata_def typeMetadata_def
        numberSetContext_def rootContext_def exampleTypeMetadata_def)
  note inst = null_default_policy [where resolver = exampleResolver and serialize = passThrough
      and deserialize = passThrough and st = "freshState []"]
  have 1: "SetSerializer_serialize exampleResolver passThrough JsNull defaultingContext (freshState [])
     = Inr (JsStr ''none'', freshState [])"
    and 2: "SetSerializer_deserialize exampleResolver passThrough JsNull defaultingContext (freshState [])
     = Inr (JsNum 0, freshState [])"
    using inst [where ctx = defaultingContext] flags
    by (simp_all add: pm defaultingProperty_def isNil_def tmd)
  have 3: "SetSerializer_serialize exampleResolver passThrough JsNull numberSetContext (freshState [])
     = Inr (JsNull, freshState [])"
    and 4: "SetSerializer_serialize exampleResolver passThrough JsUndefined numberSetContext (freshState [])
     = Inr (JsUndefined, freshState [])"
    using inst [where ctx = numberSetContext] base by simp_all
  show ?thesis using 1 2 3 4 by simp
qed

lemma heapGet_update_same:
  "heapGet h a = Some obj \<Longrightarrow> heapGet (h[a := obj']) a = Some obj'"
  by (auto simp: heapGet_def split: if_splits)

lemma heap_update_same:
  "heapGet h a = Some obj \<Longrightarrow> h[a := obj] = h"
  by (auto simp: heapGet_def split: if_splits)

lemma serializeSetElements_leaf:
  assumes "\<forall>c s. \<forall>e \<in> set es. serialize c e s = Inr (enc e, s)"
    and "heapGet (heap st) b = Some (ArrayObj pre)"
    and "int (length pre) = i + 1"
  shows "serializeSetElements serialize g b i es st =
           Inr (st\<lparr>heap := (heap st)[b := ArrayObj (pre @ map enc es)]\<rparr>)"
  using assms
proof (induction es arbitrary: st pre i)
  case Nil
  then show ?case by (simp add: heap_update_same)
next
  case (Cons e es)
  let ?st' = "st\<lparr>heap := (heap st)[b := ArrayObj (pre @ [enc e])]\<rparr>"
  have idx: "\<not> i + 1 < 0" "nat (i + 1) = length pre"
    using Cons.prems(3) by linarith+
  have assign: "arrayAssign (heap st) b (i + 1) (enc e) = (heap st)[b := ArrayObj (pre @ [enc e])]"
    using Cons.prems(2) by (simp add: arrayAssign_def idx)
  have get': "heapGet (heap ?st') b = Some (ArrayObj (pre @ [enc e]))"
    using Cons.prems(2) by (simp add: heapGet_update_same)
  have len': "int (length (pre @ [enc e])) = (i + 1) + 1"
    using Cons.prems(3) by simp
  have rest: "\<forall>c s. \<forall>e \<in> set es. serialize c e s = Inr (enc e, s)"
    using Cons.prems(1) by simp
  have step: "serialize c e st = Inr (enc e, st)" for c
    using Cons.prems(1) by simp
  show ?case
    using Cons.IH [OF rest get' len']
    by (simp add: step assign Let_def)
qed

lemma deserializeArrayElements_leaf:
  assumes "\<forall>c s. \<forall>e \<in> set es. deserialize c (enc e) s = Inr (e, s)"
    and "heapGet (heap st) c = Some (SetObj pre)"
    and "distinct (pre @ es)"
  shows "deserializeArrayElements deserialize g c i (map enc es) st =
           Inr (st\<lparr>heap := (heap st)[c := SetObj (pre @ es)]\<rparr>)"
  using assms
proof (induction es arbitrary: st pre i)
  case Nil
  then show ?case by (simp add: heap_update_same)
next
  case (Cons e es)
  let ?st' = "st\<lparr>heap := (heap st)[c := SetObj (pre @ [e])]\<rparr>"
  have add: "setAdd (heap st) c e = (heap st)[c := SetObj (pre @ [e])]"
    using Cons.prems(2,3) by (simp add: setAdd_def)
  have get': "heapGet (heap ?st') c = Some (SetObj (pre @ [e]))"
    using Cons.prems(2) by (simp add: heapGet_update_same)
  have dist': "distinct ((pre @ [e]) @ es)"
    using Cons.prems(3) by simp
  have rest: "\<forall>c s. \<forall>e \<in> set es. deserialize c (enc e) s = Inr (e, s)"
    using Cons.prems(1) by simp
  have step: "deserialize c (enc e) st = Inr (e, st)" for c
    using Cons.prems(1) by simp
  show ?case
    using Cons.IH [OF rest get' dist']
    by (simp add: step add Let_def)
qed

lemma defineReference_direct:
  "defineReference ctx k init st = DirectReferenceHandler_define k init st"
  by (cases "referenceHandler ctx") (simp add: defineReference_def)

lemma restoreReference_direct:
  "restoreReference ctx k init st = DirectReferenceHandler_restore k init st"
  by (cases "referenceHandler ctx") (simp add: restoreReference_def)

lemma serialize_set_leaf:
  assumes ser: "\<forall>c s. \<forall>e \<in> set es. serialize c e s = Inr (enc e, s)"
    and obj: "heapGet (heap st) a = Some (SetObj es)"
    and fresh: "referenceMap st a = None" "referenceCallbackMap st a = None"
    and gen: "defineGenericSerializerContext resolver ctx 0 = Inr g"
  shows "SetSerializer_serialize resolver serialize (JsRef a) ctx st =
           Inr (JsRef (length (heap st)),
                st\<lparr>referenceMap := (referenceMap st)(a \<mapsto> JsRef (length (heap st))),
                   heap := heap st @ [ArrayObj (map enc es)]\<rparr>)"
proof -
  let ?b = "length (heap st)"
  let ?st2 = "st\<lparr>referenceMap := (referenceMap st)(a \<mapsto> JsRef a), heap := heap st @ [ArrayObj []]\<rparr>"
  have a_lt: "a < length (heap st)" and a_obj: "heap st ! a = SetObj es"
    using obj by (auto simp: heapGet_def split: if_splits)
  have elems: "setElements (heap ?st2) a = es"
    using a_lt a_obj by (simp add: setElements_def heapGet_def nth_append)
  have getb: "heapGet (heap ?st2) ?b = Some (ArrayObj [])"
    by (simp add: heapGet_def)
  have loop: "serializeSetElements serialize g ?b (- 1) es ?st2 =
                Inr (?st2\<lparr>heap := (heap ?st2)[?b := ArrayObj ([] @ map enc es)]\<rparr>)"
    using ser getb by (intro serializeSetElements_leaf) simp_all
  have isset: "isSet (heap st) (JsRef a)"
    using obj by (simp add: isSet_def)
  show ?thesis
    using isset fresh gen loop elems
    by (simp add: SetSerializer_serialize_def defineReference_direct DirectReferenceHandler_define_def
        mapGet_def isNil_def heapNew_def resolveReferenceCallbacks_def)
qed

lemma deserialize_array_leaf:
  assumes deser: "\<forall>c s. \<forall>e \<in> set es. deserialize c (enc e) s = Inr (e, s)"
    and obj: "heapGet (heap st) b = Some (ArrayObj (map enc es))"
    and dist: "distinct es"
    and fresh: "referenceMap st b = None" "referenceCallbackMap st b = None"
    and gen: "defineGenericSerializerContext resolver ctx 0 = Inr g"
  shows "SetSerializer_deserialize resolver deserialize (JsRef b) ctx st =
           Inr (JsRef (length (heap st)),
                st\<lparr>referenceMap := (referenceMap st)(b \<mapsto> JsRef (length (heap st))),
                   heap := heap st @ [SetObj es]\<rparr>)"
proof -
  let ?c = "length (heap st)"
  let ?st2 = "st\<lparr>referenceMap := (referenceMap st)(b \<mapsto> JsRef b), heap := heap st @ [SetObj []]\<rparr>"
  have b_lt: "b < length (heap st)" and b_obj: "heap st ! b = ArrayObj (map enc es)"
    using obj by (auto simp: heapGet_def split: if_splits)
  have elems: "arrayElements (heap ?st2) b = map enc es"
    using b_lt b_obj by (simp add: arrayElements_def heapGet_def nth_append)
  have getc: "heapGet (heap ?st2) ?c = Some (SetObj [])"
    by (simp add: heapGet_def)
  have loop: "deserializeArrayElements deserialize g ?c 0 (map enc es) ?st2 =
                Inr (?st2\<lparr>heap := (heap ?st2)[?c := SetObj ([] @ es)]\<rparr>)"
    using deser getc dist by (intro deserializeArrayElements_leaf) simp_all
  have isarr: "isArray (heap st) (JsRef b)"
    using obj by (simp add: isArray_def)
  show ?thesis
    using isarr fresh gen loop elems
    by (simp add: SetSerializer_deserialize_def restoreReference_direct DirectReferenceHandler_restore_def
        mapGet_def isNil_def heapNew_def resolveReferenceCallbacks_def)
qed

text \<open>
  Sets of leaf values round-trip. Take a set object whose elements are distinct (as the
  elements of a set are) and an element type whose serializer and deserializer are leaf
  converters: they leave the state as it is, and deserializing the serialized form of an
  element of the set gives that element back. Let both contexts have a generic argument 0
  that resolves. Then serializing the set with fresh reference maps returns a new array
  that holds the serialized elements in the set's order, and deserializing that array
  with fresh reference maps returns a new set, a different object from the original one,
  that holds exactly the original's elements in the original's order; the original set is
  unchanged.
\<close>

theorem set_round_trip:
  assumes "\<forall>c s. \<forall>e \<in> set es. serialize c e s = Inr (enc e, s)"
    and "\<forall>c s. \<forall>e \<in> set es. deserialize c (enc e) s = Inr (e, s)"
    and "heapGet (heap st) a = Some (SetObj es)"
    and "distinct es"
    and "referenceMap st = Map.empty"
    and "referenceCallbackMap st = Map.empty"
    and "defineGenericSerializerContext resolver ctx 0 = Inr g"
    and "defineGenericSerializerContext resolver ctx' 0 = Inr g'"
  shows "\<exists>b c st1 st2.
           SetSerializer_serialize resolver serialize (JsRef a) ctx st = Inr (JsRef b, st1)
         \<and> heapGet (heap st1) b = Some (ArrayObj (map enc es))
         \<and> SetSerializer_deserialize resolver deserialize (JsRef b) ctx'
               (st1\<lparr>referenceMap := Map.empty, referenceCallbackMap := Map.empty\<rparr>)
             = Inr (JsRef c, st2)
         \<and> c \<noteq> a
         \<and> heapGet (heap st2) c = Some (SetObj es)
         \<and> heapGet (heap st2) a = Some (SetObj es)"
proof -
  let ?b = "length (heap st)"
  let ?st1 = "st\<lparr>referenceMap := (referenceMap st)(a \<mapsto> JsRef ?b),
                 heap := heap st @ [ArrayObj (map enc es)]\<rparr>"
  let ?fresh = "?st1\<lparr>referenceMap := Map.empty, referenceCallbackMap := Map.empty\<rparr>"
  let ?c = "length (heap ?fresh)"
  let ?st2 = "?fresh\<lparr>referenceMap := (referenceMap ?fresh)(?b \<mapsto> JsRef ?c),
                    heap := heap ?fresh @ [SetObj es]\<rparr>"
  have a_lt: "a < length (heap st)" and a_obj: "heap st ! a = SetObj es"
    using assms(3) by (auto simp: heapGet_def split: if_splits)
  have ser: "SetSerializer_serialize resolver serialize (JsRef a) ctx st = Inr (JsRef ?b, ?st1)"
    using assms(1,3,5,6,7) by (intro serialize_set_leaf) simp_all
  have arr: "heapGet (heap ?st1) ?b = Some (ArrayObj (map enc es))"
    by (simp add: heapGet_def)
  have arr': "heapGet (heap ?fresh) ?b = Some (ArrayObj (map enc es))"
    by (simp add: heapGet_def)
  have deser: "SetSerializer_deserialize resolver deserialize (JsRef ?b) ctx' ?fresh = Inr (JsRef ?c, ?st2)"
    using deserialize_array_leaf [where enc = enc and es = es, OF assms(2) arr' assms(4) _ _ assms(8)]
    by simp
  have ne: "?c \<noteq> a"
    using a_lt by simp
  have newset: "heapGet (heap ?st2) ?c = Some (SetObj es)"
    by (simp add: heapGet_def nth_append)
  have old: "heapGet (heap ?st2) a = Some (SetObj es)"
    using a_lt a_obj by (simp add: heapGet_def nth_append)
  show ?thesis
    using ser arr deser ne newset old by blast
qed

text \<open>
  An instance: the set \<open>{3, 5}\<close> at address 0, with element type \<open>Number\<close> and the
  pass-through element serializer. The array \<open>[3, 5]\<close> is created at address 1 and the
  deserialized set \<open>{3, 5}\<close> at address 2.
\<close>

theorem set_round_trip_witness:
  "SetSerializer_serialize exampleResolver passThrough (JsRef 0) numberSetContext
       (freshState [SetObj [JsNum 3, JsNum 5]])
     = Inr (JsRef 1,
            (freshState [SetObj [JsNum 3, JsNum 5], ArrayObj [JsNum 3, JsNum 5]])
              \<lparr>referenceMap := [0 \<mapsto> JsRef 1]\<rparr>)
   \<and> SetSerializer_deserialize exampleResolver passThrough (JsRef 1) numberSetContext
       (freshState [SetObj [JsNum 3, JsNum 5], ArrayObj [JsNum 3, JsNum 5]])
     = Inr (JsRef 2,
            (freshState [SetObj [JsNum 3, JsNum 5], ArrayObj [JsNum 3, JsNum 5], SetObj [JsNum 3, JsNum 5]])
              \<lparr>referenceMap := [1 \<mapsto> JsRef 2]\<rparr>)"
proof -
  let ?es = "[JsNum 3, JsNum 5]"
  let ?st = "freshState [SetObj ?es]"
  have gs: "genericArguments numberSetContext = Some [TypeArgument numberFn]"
    by (simp add: genericArguments_def numberSetContext_def rootContext_def propertyMetadata_def
        typeMetadata_def)
  have gen: "defineGenericSerializerContext exampleResolver numberSetContext 0 =
               Inr (SerializerContext
                      ((serializerContextOptions numberSetContext)
                         \<lparr>sco_typeMetadata := exampleTypeMetadata numberFn,
                          sco_genericArguments := None,
                          sco_propertyMetadata := None\<rparr>)
                      (parentSerializerContext numberSetContext))"
    by (simp add: defineGenericSerializerContext_def gs arrayAt_def defineTypeMetadata_def
        exampleResolver_ctor isCtorFunction_def numberFn_def isNil_def)
  have h1: "\<forall>c s. \<forall>e \<in> set ?es. passThrough c e s = Inr (id e, s)"
    and h2: "\<forall>c s. \<forall>e \<in> set ?es. passThrough c (id e) s = Inr (e, s)"
    by (simp_all add: passThrough_def)
  have h3: "heapGet (heap ?st) 0 = Some (SetObj ?es)"
    by (simp add: freshState_def heapGet_def)
  have h4: "distinct ?es" by simp
  have h5: "referenceMap ?st = Map.empty" and h6: "referenceCallbackMap ?st = Map.empty"
    by (simp_all add: freshState_def)
  obtain b c st1 st2 where
    rt: "SetSerializer_serialize exampleResolver passThrough (JsRef 0) numberSetContext ?st = Inr (JsRef b, st1)"
        "SetSerializer_deserialize exampleResolver passThrough (JsRef b) numberSetContext
               (st1\<lparr>referenceMap := Map.empty, referenceCallbackMap := Map.empty\<rparr>)
             = Inr (JsRef c, st2)"
    using set_round_trip [OF h1 h2 h3 h4 h5 h6 gen gen] by blast
  have s: "SetSerializer_serialize exampleResolver passThrough (JsRef 0) numberSetContext ?st
     = Inr (JsRef 1, (freshState [SetObj ?es, ArrayObj ?es])\<lparr>referenceMap := [0 \<mapsto> JsRef 1]\<rparr>)"
    using serialize_set_leaf [OF h1 h3 _ _ gen] by (simp add: freshState_def)
  have b: "b = 1" and st1: "st1 = (freshState [SetObj ?es, ArrayObj ?es])\<lparr>referenceMap := [0 \<mapsto> JsRef 1]\<rparr>"
    using rt(1) s by auto
  have fresh: "st1\<lparr>referenceMap := Map.empty, referenceCallbackMap := Map.empty\<rparr>
                 = freshState [SetObj ?es, ArrayObj ?es]"
    by (simp add: st1 freshState_def)
  have h3': "heapGet (heap (freshState [SetObj ?es, ArrayObj ?es])) 1 = Some (ArrayObj (map id ?es))"
    by (simp add: freshState_def heapGet_def)
  have d: "SetSerializer_deserialize exampleResolver passThrough (JsRef 1) numberSetContext
             (freshState [SetObj ?es, ArrayObj ?es])
     = Inr (JsRef 2, (freshState [SetObj ?es, ArrayObj ?es, SetObj ?es])\<lparr>referenceMap := [1 \<mapsto> JsRef 2]\<rparr>)"
    using deserialize_array_leaf [OF h2 h3' h4 _ _ gen] by (simp add: freshState_def numeral_2_eq_2)
  show ?thesis using s d by simp
qed

lemma showInt_zero: "showInt 0 = ''0''"
  by (simp add: showInt_def showNat.simps [of 0] digitChar_def)

lemma setOfNumberSets_generic_context: "defineGenericSerializerContext exampleResolver setOfNumberSetsContext 0 =
   Inr (SerializerContext
          \<lparr>sco_jsonPathKey = KeyString ''$'',
           sco_typeMetadata = exampleTypeMetadata setFn,
           sco_propertyMetadata = None,
           sco_genericArguments = Some [TypeArgument numberFn],
           sco_referenceValueSetter = None\<rparr>
          None)"
  by (simp add: defineGenericSerializerContext_def genericArguments_def setOfNumberSetsContext_def
      rootContext_def propertyMetadata_def typeMetadata_def arrayAt_def defineTypeMetadata_def
      exampleResolver_def resolveTypeMetadata_def isCtorFunction_def setFn_def isNil_def)

text \<open>
  C2. The round trip is lost for a set whose elements need generic arguments of their
  own. For a set of sets of numbers, declared with the generic argument
  \<open>[Set, [Number]]\<close>, \<open>defineGenericSerializerContext(0)\<close> gives a generic context that
  carries the nested generic arguments \<open>[Number]\<close>; the set serializer builds the context
  of each element from that context's type metadata only, so the nested arguments do not
  reach the inner set, and serializing it (and likewise deserializing an array of arrays)
  throws the configuration error "$[0]: cannot define generic arguments" where the claim
  promises a reconstructed value.
\<close>

theorem nested_set_generic_arguments_lost:
  "genericArguments setOfNumberSetsContext = Some [TypeArgumentWith setFn [TypeArgument numberFn]]
   \<and> (\<exists>g. defineGenericSerializerContext exampleResolver setOfNumberSetsContext 0 = Inr g \<and>
            genericArguments g = Some [TypeArgument numberFn])
   \<and> SetSerializer_serialize exampleResolver exampleSerialize (JsRef 0) setOfNumberSetsContext
        (freshState [SetObj [JsRef 1], SetObj [JsNum 3]])
       = Inl (CannotDefineGenericArguments ''$[0]'')
   \<and> SetSerializer_deserialize exampleResolver exampleDeserialize (JsRef 0) setOfNumberSetsContext
        (freshState [ArrayObj [JsRef 1], ArrayObj [JsNum 3]])
       = Inl (CannotDefineGenericArguments ''$[0]'')"
proof -
  have ga: "genericArguments setOfNumberSetsContext = Some [TypeArgumentWith setFn [TypeArgument numberFn]]"
    by (simp add: genericArguments_def setOfNumberSetsContext_def rootContext_def propertyMetadata_def
        typeMetadata_def)
  have rh: "referenceHandler ctx = DirectReferenceHandler" for ctx
    by (cases "referenceHandler ctx") simp
  let ?g = "SerializerContext
          \<lparr>sco_jsonPathKey = KeyString ''$'',
           sco_typeMetadata = exampleTypeMetadata setFn,
           sco_propertyMetadata = None,
           sco_genericArguments = Some [TypeArgument numberFn],
           sco_referenceValueSetter = None\<rparr>
          None"
  have gg: "genericArguments ?g = Some [TypeArgument numberFn]"
    by (simp add: genericArguments_def)
  have tmg: "typeMetadata ?g = exampleTypeMetadata setFn"
    by (simp add: typeMetadata_def)
  have tmfn: "tm_typeFn (exampleTypeMetadata setFn) = setFn"
    by (simp add: exampleTypeMetadata_def)
  have child: "defineGenericSerializerContext exampleResolver
                 (SerializerContext
                    \<lparr>sco_jsonPathKey = KeyNumber 0,
                     sco_typeMetadata = exampleTypeMetadata setFn,
                     sco_propertyMetadata = None,
                     sco_genericArguments = None,
                     sco_referenceValueSetter = Some setter\<rparr> (Some ?g)) 0
               = Inl (CannotDefineGenericArguments ''$[0]'')" for setter
    by (simp add: defineGenericSerializerContext_def genericArguments_def propertyMetadata_def
        typeMetadata_def exampleTypeMetadata_def showInt_zero)
  have tmc: "typeMetadata (SerializerContext
                    \<lparr>sco_jsonPathKey = KeyNumber 0,
                     sco_typeMetadata = exampleTypeMetadata setFn,
                     sco_propertyMetadata = None,
                     sco_genericArguments = None,
                     sco_referenceValueSetter = Some setter\<rparr> (Some ?g)) = exampleTypeMetadata setFn"
    for setter
    by (simp add: typeMetadata_def)
  have inner_s: "exampleSerialize
                 (SerializerContext
                    \<lparr>sco_jsonPathKey = KeyNumber 0,
                     sco_typeMetadata = exampleTypeMetadata setFn,
                     sco_propertyMetadata = None,
                     sco_genericArguments = None,
                     sco_referenceValueSetter = Some setter\<rparr> (Some ?g)) (JsRef a) st
               = Inl (CannotDefineGenericArguments ''$[0]'')"
    if "heapGet (heap st) a = Some (SetObj xs)" "referenceMap st a = None" for setter st xs a
    using that
    by (simp add: exampleSerialize_def SetSerializer_serialize_def isSet_def defineReference_def rh
        DirectReferenceHandler_define_def mapGet_def isNil_def heapNew_def child tmc tmfn)
  have inner_d: "exampleDeserialize
                 (SerializerContext
                    \<lparr>sco_jsonPathKey = KeyNumber 0,
                     sco_typeMetadata = exampleTypeMetadata setFn,
                     sco_propertyMetadata = None,
                     sco_genericArguments = None,
                     sco_referenceValueSetter = Some setter\<rparr> (Some ?g)) (JsRef a) st
               = Inl (CannotDefineGenericArguments ''$[0]'')"
    if "heapGet (heap st) a = Some (ArrayObj xs)" "referenceMap st a = None" for setter st xs a
    using that
    by (simp add: exampleDeserialize_def SetSerializer_deserialize_def isArray_def restoreReference_def rh
        DirectReferenceHandler_restore_def mapGet_def isNil_def heapNew_def child tmc tmfn)
  let ?s1 = "\<lparr>heap = [SetObj [JsRef 1], SetObj [JsNum 3], ArrayObj []],
              referenceMap = [0 \<mapsto> JsRef 0], referenceCallbackMap = Map.empty, logged = []\<rparr>"
  have e1: "exampleSerialize
                 (SerializerContext
                    \<lparr>sco_jsonPathKey = KeyNumber 0,
                     sco_typeMetadata = exampleTypeMetadata setFn,
                     sco_propertyMetadata = None,
                     sco_genericArguments = None,
                     sco_referenceValueSetter = Some (ArrayIndexSetter 2)\<rparr> (Some ?g)) (JsRef 1) ?s1
               = Inl (CannotDefineGenericArguments ''$[0]'')"
    by (rule inner_s [where xs = "[JsNum 3]"]) (simp_all add: heapGet_def)
  have loop_s: "serializeSetElements exampleSerialize ?g 2 (- 1) [JsRef 1] ?s1
                  = Inl (CannotDefineGenericArguments ''$[0]'')"
    using e1 by (simp add: defineChildSerializerContext_def tmg)
  have s: "SetSerializer_serialize exampleResolver exampleSerialize (JsRef 0) setOfNumberSetsContext
        (freshState [SetObj [JsRef 1], SetObj [JsNum 3]])
       = Inl (CannotDefineGenericArguments ''$[0]'')"
    using loop_s
    by (simp add: SetSerializer_serialize_def isSet_def defineReference_def rh
        DirectReferenceHandler_define_def mapGet_def isNil_def heapNew_def setOfNumberSets_generic_context freshState_def
        heapGet_def setElements_def numeral_2_eq_2)
  let ?d1 = "\<lparr>heap = [ArrayObj [JsRef 1], ArrayObj [JsNum 3], SetObj []],
              referenceMap = [0 \<mapsto> JsRef 0], referenceCallbackMap = Map.empty, logged = []\<rparr>"
  have e2: "exampleDeserialize
                 (SerializerContext
                    \<lparr>sco_jsonPathKey = KeyNumber 0,
                     sco_typeMetadata = exampleTypeMetadata setFn,
                     sco_propertyMetadata = None,
                     sco_genericArguments = None,
                     sco_referenceValueSetter = Some (SetAddSetter 2)\<rparr> (Some ?g)) (JsRef 1) ?d1
               = Inl (CannotDefineGenericArguments ''$[0]'')"
    by (rule inner_d [where xs = "[JsNum 3]"]) (simp_all add: heapGet_def)
  have loop_d: "deserializeArrayElements exampleDeserialize ?g 2 0 [JsRef 1] ?d1
                  = Inl (CannotDefineGenericArguments ''$[0]'')"
    using e2 by (simp add: defineChildSerializerContext_def tmg)
  have d: "SetSerializer_deserialize exampleResolver exampleDeserialize (JsRef 0) setOfNumberSetsContext
        (freshState [ArrayObj [JsRef 1], ArrayObj [JsNum 3]])
       = Inl (CannotDefineGenericArguments ''$[0]'')"
    using loop_d
    by (simp add: SetSerializer_deserialize_def isArray_def restoreReference_def rh
        DirectReferenceHandler_restore_def mapGet_def isNil_def heapNew_def setOfNumberSets_generic_context freshState_def
        heapGet_def arrayElements_def numeral_2_eq_2)
  show ?thesis
    using ga setOfNumberSets_generic_context gg s d by simp
qed

end
